theory Spec2Isabelle
  imports Complex_Main
begin

section \<open>Python values and the string built-ins the code calls\<close>

text \<open>
  A Python \<open>str\<close> is a sequence of Unicode code points, so a string is a list of code
  points (natural numbers). \<open>ascii\<close> embeds an ASCII literal.

  Amounts are Python floats. The model takes them as real numbers: finite values with
  exact arithmetic. Rounding, overflow and the non-finite floats (\<open>nan\<close>, \<open>inf\<close>) are
  outside the model.
\<close>

type_synonym pystr = "nat list"

definition ascii :: "string \<Rightarrow> pystr" where
  "ascii s = map of_char s"

text \<open>The currency signs of \<open>app.py\<close> and the three characters of \<open>processor.py\<close>.\<close>

definition rupee :: nat where
  "rupee = 0x20B9"

definition euro :: nat where
  "euro = 0x20AC"

definition dollar :: nat where
  "dollar = 0x24"

definition comma :: nat where
  "comma = 0x2C"

definition mojibake_rupee :: pystr where
  \<comment> \<open>the literal of \<open>processor.py\<close> line 152: U+00E2 U+201A U+00B9\<close>
  "mojibake_rupee = [0xE2, 0x201A, 0xB9]"

datatype pyvalue = PyNone | PyInt int | PyFloat real | PyStr pystr

text \<open>
  A record (\<open>row\<close>) is a Python dict: its items in insertion order. A field name is
  \<open>None\<close> (a null name) or text.
\<close>

type_synonym row = "(pystr option \<times> pyvalue) list"

definition startswith :: "'a list \<Rightarrow> 'a list \<Rightarrow> bool" where
  \<comment> \<open>\<open>s.startswith(p)\<close>\<close>
  "startswith s p = (take (length p) s = p)"

definition endswith :: "'a list \<Rightarrow> 'a list \<Rightarrow> bool" where
  \<comment> \<open>\<open>s.endswith(p)\<close>\<close>
  "endswith s p = startswith (rev s) (rev p)"

fun contains :: "'a list \<Rightarrow> 'a list \<Rightarrow> bool" where
  \<comment> \<open>\<open>sub in s\<close>, written \<open>contains s sub\<close>\<close>
  "contains [] sub = (sub = [])"
| "contains (c # cs) sub = (startswith (c # cs) sub \<or> contains cs sub)"

function replace :: "'a list \<Rightarrow> 'a list \<Rightarrow> 'a list \<Rightarrow> 'a list" where
  \<comment> \<open>\<open>s.replace(old, new)\<close>, written \<open>replace s old new\<close>: left to right, no overlap\<close>
  "replace [] old new = (if old = [] then new else [])"
| "replace (c # cs) old new =
     (if old = [] then new @ c # replace cs old new
      else if startswith (c # cs) old then new @ replace (drop (length old) (c # cs)) old new
      else c # replace cs old new)"
  by pat_completeness auto
termination
  by (relation "measure (\<lambda>(s, old, new). length s)") auto

definition isspace :: "nat \<Rightarrow> bool" where
  \<comment> \<open>the code points for which \<open>str.isspace\<close> holds\<close>
  "isspace c = ((0x09 \<le> c \<and> c \<le> 0x0D) \<or> (0x1C \<le> c \<and> c \<le> 0x20) \<or> c = 0x85 \<or> c = 0xA0
     \<or> c = 0x1680 \<or> (0x2000 \<le> c \<and> c \<le> 0x200A) \<or> c = 0x2028 \<or> c = 0x2029
     \<or> c = 0x202F \<or> c = 0x205F \<or> c = 0x3000)"

definition strip :: "pystr \<Rightarrow> pystr" where
  \<comment> \<open>\<open>s.strip()\<close>\<close>
  "strip s = rev (dropWhile isspace (rev (dropWhile isspace s)))"

definition lower :: "pystr \<Rightarrow> pystr" where
  \<comment> \<open>\<open>s.lower()\<close> on the letters A to Z; other code points are left as they are\<close>
  "lower s = map (\<lambda>c. if 0x41 \<le> c \<and> c \<le> 0x5A then c + 0x20 else c) s"

definition isdigit :: "nat \<Rightarrow> bool" where
  \<comment> \<open>the ASCII digits\<close>
  "isdigit c = (0x30 \<le> c \<and> c \<le> 0x39)"

definition digits_value :: "pystr \<Rightarrow> nat" where
  "digits_value ds = foldl (\<lambda>a c. 10 * a + (c - 0x30)) 0 ds"

fun str_nat :: "nat \<Rightarrow> pystr" where
  "str_nat n = (if n < 10 then [0x30 + n] else str_nat (n div 10) @ [0x30 + n mod 10])"

definition str_int :: "int \<Rightarrow> pystr" where
  \<comment> \<open>\<open>str(i)\<close> of a Python int\<close>
  "str_int i = (if i < 0 then 0x2D # str_nat (nat (- i)) else str_nat (nat i))"

text \<open>
  \<open>str(value)\<close>. The text of a float is its shortest round-trip form, which depends on
  the binary representation; it is taken as the parameter \<open>frepr\<close>.
\<close>

fun py_str :: "(real \<Rightarrow> pystr) \<Rightarrow> pyvalue \<Rightarrow> pystr" where
  "py_str frepr PyNone = ascii ''None''"
| "py_str frepr (PyInt i) = str_int i"
| "py_str frepr (PyFloat r) = frepr r"
| "py_str frepr (PyStr s) = s"

text \<open>
  \<open>float(text)\<close> on decimal literals: surrounding whitespace, an optional sign, digits
  with an optional fraction (at least one digit in all), an optional exponent. \<open>None\<close>
  is the \<open>ValueError\<close>. The spellings of \<open>inf\<close> and \<open>nan\<close>, digit grouping with
  underscores and non-ASCII digits are outside the model.
\<close>

definition split_sign :: "pystr \<Rightarrow> bool \<times> pystr" where
  "split_sign s = (case s of
       [] \<Rightarrow> (False, [])
     | c # cs \<Rightarrow> if c = 0x2D then (True, cs) else if c = 0x2B then (False, cs) else (False, s))"

definition float_exponent :: "pystr \<Rightarrow> int option" where
  "float_exponent s = (case s of
       [] \<Rightarrow> Some 0
     | c # cs \<Rightarrow>
         if c = 0x65 \<or> c = 0x45 then
           (let (neg, ds) = split_sign cs in
            if ds \<noteq> [] \<and> list_all isdigit ds
            then Some (if neg then - int (digits_value ds) else int (digits_value ds))
            else None)
         else None)"

definition scale10 :: "real \<Rightarrow> int \<Rightarrow> real" where
  "scale10 x e = (if 0 \<le> e then x * 10 ^ nat e else x / 10 ^ nat (- e))"

definition py_float :: "pystr \<Rightarrow> real option" where
  "py_float s =
     (let (neg, u) = split_sign (strip s);
          ip = takeWhile isdigit u;
          r1 = dropWhile isdigit u;
          (fp, r2) = (case r1 of
                        [] \<Rightarrow> ([], [])
                      | c # cs \<Rightarrow> if c = 0x2E then (takeWhile isdigit cs, dropWhile isdigit cs)
                                 else ([], r1))
      in if ip = [] \<and> fp = [] then None
         else (case float_exponent r2 of
                 None \<Rightarrow> None
               | Some e \<Rightarrow>
                   let m = scale10 (real (digits_value (ip @ fp))) (e - int (length fp))
                   in Some (if neg then - m else m)))"

section \<open>The chart of accounts\<close>

type_synonym chart = "(pystr \<times> (pystr \<times> pystr list) list) list"

definition CHART_OF_ACCOUNTS :: chart where
  "CHART_OF_ACCOUNTS =
    [(ascii ''income'',
       [(ascii ''salary'', map ascii [''salary'', ''payroll'', ''wages'']),
        (ascii ''business'', map ascii [''freelance'', ''consulting'', ''client'', ''project'']),
        (ascii ''investment'', map ascii [''dividend'', ''interest'', ''return'', ''yield'']),
        (ascii ''other_income'', map ascii [''refund'', ''reimbursement'', ''gift''])]),
     (ascii ''expenses'',
       [(ascii ''housing'', map ascii [''rent'', ''mortgage'', ''emi'', ''house'', ''apartment'']),
        (ascii ''utilities'',
           map ascii [''electric'', ''water'', ''bill'', ''utility'', ''internet'', ''mobile'']),
        (ascii ''food'', map ascii [''grocery'', ''restaurant'', ''food'', ''dining'', ''supermarket'']),
        (ascii ''transport'',
           map ascii [''fuel'', ''petrol'', ''uber'', ''ola'', ''transport'', ''bus'', ''train'']),
        (ascii ''healthcare'',
           map ascii [''medical'', ''hospital'', ''doctor'', ''pharmacy'', ''medicine'']),
        (ascii ''entertainment'',
           map ascii [''movie'', ''netflix'', ''prime'', ''entertainment'', ''game'']),
        (ascii ''shopping'',
           map ascii [''shopping'', ''mall'', ''amazon'', ''flipkart'', ''purchase''])])]"

definition chart_of_accounts :: chart where
  \<comment> \<open>\<open>FinancialProcessor.__init__\<close>: the same table, written out again in \<open>processor.py\<close>\<close>
  "chart_of_accounts =
    [(ascii ''income'',
       [(ascii ''salary'', map ascii [''salary'', ''payroll'', ''wages'']),
        (ascii ''business'', map ascii [''freelance'', ''consulting'', ''client'', ''project'']),
        (ascii ''investment'', map ascii [''dividend'', ''interest'', ''return'', ''yield'']),
        (ascii ''other_income'', map ascii [''refund'', ''reimbursement'', ''gift''])]),
     (ascii ''expenses'',
       [(ascii ''housing'', map ascii [''rent'', ''mortgage'', ''emi'', ''house'', ''apartment'']),
        (ascii ''utilities'',
           map ascii [''electric'', ''water'', ''bill'', ''utility'', ''internet'', ''mobile'']),
        (ascii ''food'', map ascii [''grocery'', ''restaurant'', ''food'', ''dining'', ''supermarket'']),
        (ascii ''transport'',
           map ascii [''fuel'', ''petrol'', ''uber'', ''ola'', ''transport'', ''bus'', ''train'']),
        (ascii ''healthcare'',
           map ascii [''medical'', ''hospital'', ''doctor'', ''pharmacy'', ''medicine'']),
        (ascii ''entertainment'',
           map ascii [''movie'', ''netflix'', ''prime'', ''entertainment'', ''game'']),
        (ascii ''shopping'',
           map ascii [''shopping'', ''mall'', ''amazon'', ''flipkart'', ''purchase''])])]"

section \<open>\<open>app.py\<close>: the module-level functions\<close>

definition parse_amount :: "pyvalue \<Rightarrow> real" where
  \<comment> \<open>\<open>app.py\<close> lines 55 to 65; the \<open>ValueError\<close> of \<open>float\<close> is caught and gives 0\<close>
  "parse_amount v = (case v of
       PyNone \<Rightarrow> 0
     | PyInt i \<Rightarrow> real_of_int i
     | PyFloat r \<Rightarrow> r
     | PyStr s \<Rightarrow>
         if s = [] then 0
         else let cleaned = strip (replace (replace (replace (replace s [comma] []) [rupee] [])
                                     [dollar] []) [euro] [])
              in if cleaned \<noteq> [] then (case py_float cleaned of Some r \<Rightarrow> r | None \<Rightarrow> 0)
                 else 0)"

fun sub_cats_loop :: "pystr \<Rightarrow> pystr \<Rightarrow> (pystr \<times> pystr list) list \<Rightarrow> pystr option" where
  \<comment> \<open>the inner \<open>for sub_cat, keywords in sub_cats.items()\<close>; \<open>Some\<close> is the \<open>return\<close>\<close>
  "sub_cats_loop desc_lower main_cat [] = None"
| "sub_cats_loop desc_lower main_cat ((sub_cat, keywords) # rest) =
     (if list_ex (\<lambda>keyword. contains desc_lower keyword) keywords
      then Some (main_cat @ ascii ''_'' @ sub_cat)
      else sub_cats_loop desc_lower main_cat rest)"

fun main_cats_loop :: "pystr \<Rightarrow> chart \<Rightarrow> pystr" where
  \<comment> \<open>the outer \<open>for main_cat, sub_cats in ...items()\<close> and the final \<open>return\<close>\<close>
  "main_cats_loop desc_lower [] = ascii ''uncategorized''"
| "main_cats_loop desc_lower ((main_cat, sub_cats) # rest) =
     (case sub_cats_loop desc_lower main_cat sub_cats of
        Some label \<Rightarrow> label
      | None \<Rightarrow> main_cats_loop desc_lower rest)"

definition categorize_transaction :: "pystr \<Rightarrow> pystr" where
  \<comment> \<open>\<open>app.py\<close> lines 67 to 74\<close>
  "categorize_transaction description' = main_cats_loop (lower description') CHART_OF_ACCOUNTS"


record transaction =
  date :: pystr
  description :: pystr
  amount :: real
  category :: pystr
  type :: pystr

definition truthy :: "pystr option \<Rightarrow> bool" where
  \<comment> \<open>\<open>if key\<close>: a name that is neither \<open>None\<close> nor the empty string\<close>
  "truthy key = (case key of None \<Rightarrow> False | Some s \<Rightarrow> s \<noteq> [])"

definition key_str :: "pystr option \<Rightarrow> pystr" where
  \<comment> \<open>\<open>str(key)\<close>\<close>
  "key_str key = (case key of None \<Rightarrow> ascii ''None'' | Some s \<Rightarrow> s)"

definition any_in :: "pystr list \<Rightarrow> pystr \<Rightarrow> bool" where
  \<comment> \<open>\<open>any(term in s for term in terms)\<close>\<close>
  "any_in terms s = list_ex (\<lambda>term. contains s term) terms"

definition amount_terms :: "pystr list" where
  "amount_terms = map ascii [''amount'', ''amt'', ''value'']"

definition debit_terms :: "pystr list" where
  "debit_terms = map ascii [''debit'', ''withdrawal'', ''dr'']"

definition credit_terms :: "pystr list" where
  "credit_terms = map ascii [''credit'', ''deposit'', ''cr'']"

definition description_terms :: "pystr list" where
  "description_terms = map ascii [''description'', ''desc'', ''particulars'', ''narration'', ''details'']"

text \<open>
  The \<open>for key, value in row.items()\<close> loop of \<open>extract_transaction\<close>, with its three
  \<open>break\<close>s; the result is the value of \<open>amount\<close> after the loop. The loop has the same
  text in both files; \<open>parse\<close> is the \<open>parse_amount\<close> of the file.
\<close>

fun amount_loop :: "(pyvalue \<Rightarrow> real) \<Rightarrow> row \<Rightarrow> real" where
  "amount_loop parse [] = 0"
| "amount_loop parse ((key, value) # rest) =
     (if truthy key \<and> value \<noteq> PyNone then
        (let key_lower = lower (key_str key) in
         if any_in amount_terms key_lower then parse value
         else if any_in debit_terms key_lower then - \<bar>parse value\<bar>
         else if any_in credit_terms key_lower then \<bar>parse value\<bar>
         else amount_loop parse rest)
      else amount_loop parse rest)"

definition next_or :: "'a list \<Rightarrow> 'a \<Rightarrow> 'a" where
  \<comment> \<open>\<open>next(generator, default)\<close>\<close>
  "next_or xs d = (case xs of [] \<Rightarrow> d | x # _ \<Rightarrow> x)"

definition find_description :: "(real \<Rightarrow> pystr) \<Rightarrow> row \<Rightarrow> pystr \<Rightarrow> pystr" where
  "find_description frepr row d =
     next_or (map (\<lambda>(key, value). py_str frepr value)
                (filter (\<lambda>(key, value). truthy key \<and> any_in description_terms (lower (key_str key))) row)) d"

definition find_date :: "(real \<Rightarrow> pystr) \<Rightarrow> row \<Rightarrow> pystr" where
  "find_date frepr row =
     next_or (map (\<lambda>(key, value). py_str frepr value)
                (filter (\<lambda>(key, value). truthy key \<and> contains (lower (key_str key)) (ascii ''date'')) row)) []"

definition extract_transaction :: "(real \<Rightarrow> pystr) \<Rightarrow> row \<Rightarrow> transaction option" where
  \<comment> \<open>\<open>app.py\<close> lines 76 to 102\<close>
  "extract_transaction frepr row =
     (let amount' = amount_loop parse_amount row in
      if amount' = 0 then None
      else
        let description' = find_description frepr row (ascii ''Unknown Transaction'');
            date' = find_date frepr row;
            category' = categorize_transaction description'
        in Some \<lparr>date = date', description = description', amount = amount', category = category',
                 type = (if amount' > 0 then ascii ''income'' else ascii ''expense'')\<rparr>)"

section \<open>\<open>processor.py\<close>: the methods of \<open>FinancialProcessor\<close>\<close>

definition fp_parse_amount :: "pyvalue \<Rightarrow> real" where
  \<comment> \<open>lines 145 to 155 on a value that is not NaN: of these, \<open>pd.isna\<close> holds of \<open>None\<close> only.
      \<open>fp_parse_amount_cell\<close> below has the NaN case.\<close>
  "fp_parse_amount v = (case v of
       PyNone \<Rightarrow> 0
     | PyInt i \<Rightarrow> real_of_int i
     | PyFloat r \<Rightarrow> r
     | PyStr s \<Rightarrow>
         let cleaned = strip (replace (replace (replace s [comma] []) mojibake_rupee []) [dollar] [])
         in if cleaned \<noteq> [] then (case py_float cleaned of Some r \<Rightarrow> r | None \<Rightarrow> 0)
            else 0)"

definition fp_categorize_transaction :: "pystr \<Rightarrow> pystr" where
  \<comment> \<open>lines 157 to 164\<close>
  "fp_categorize_transaction description' = main_cats_loop (lower description') chart_of_accounts"

definition fp_extract_transaction :: "(real \<Rightarrow> pystr) \<Rightarrow> row \<Rightarrow> transaction option" where
  \<comment> \<open>lines 87 to 116\<close>
  "fp_extract_transaction frepr row =
     (let amount' = amount_loop fp_parse_amount row in
      if amount' = 0 then None
      else
        let description' = find_description frepr row (ascii ''Unknown'');
            date' = find_date frepr row;
            category' = fp_categorize_transaction description'
        in Some \<lparr>date = date', description = description', amount = amount', category = category',
                 type = (if amount' > 0 then ascii ''income'' else ascii ''expense'')\<rparr>)"

subsection \<open>The two patterns of \<open>parse_pdf_line\<close>\<close>

text \<open>
  The patterns use character classes with a repetition, plain characters and groups.
  \<open>Rep P lo hi greedy\<close> is a class \<open>P\<close> repeated \<open>lo\<close> to \<open>hi\<close> times (\<open>None\<close>: no bound).
  \<open>rx_match\<close> lists the ways a pattern matches at the start of a text, in the order in
  which a backtracking matcher tries them: the captured groups and the rest of the
  text. \<open>rx_search\<close> is \<open>re.search\<close>: the first way at the leftmost start that has one.
  The class \<open>\\d\<close> is taken as the ASCII digits, \<open>\\s\<close> as the code points of \<open>isspace\<close>,
  and \<open>.\<close> as every code point but the newline.
\<close>

datatype rx = Rep "nat \<Rightarrow> bool" nat "nat option" bool | Grp "rx list"

definition rep_counts :: "(nat \<Rightarrow> bool) \<Rightarrow> nat \<Rightarrow> nat option \<Rightarrow> bool \<Rightarrow> pystr \<Rightarrow> nat list" where
  "rep_counts P lo hi greedy s =
     (let avail = length (takeWhile P s);
          top = (case hi of None \<Rightarrow> avail | Some h \<Rightarrow> min h avail);
          ns = [lo ..< Suc top]
      in if greedy then rev ns else ns)"

fun rx_match :: "rx list \<Rightarrow> pystr \<Rightarrow> (pystr list \<times> pystr) list" where
  "rx_match [] s = [([], s)]"
| "rx_match (Rep P lo hi greedy # rs) s =
     concat (map (\<lambda>n. rx_match rs (drop n s)) (rep_counts P lo hi greedy s))"
| "rx_match (Grp body # rs) s =
     concat (map (\<lambda>(caps1, rest1).
                    map (\<lambda>(caps2, rest2). (take (length s - length rest1) s # caps1 @ caps2, rest2))
                        (rx_match rs rest1))
                 (rx_match body s))"

fun rx_search :: "rx list \<Rightarrow> pystr \<Rightarrow> pystr list option" where
  "rx_search p [] = (case rx_match p [] of [] \<Rightarrow> None | (caps, rest) # _ \<Rightarrow> Some caps)"
| "rx_search p (c # cs) =
     (case rx_match p (c # cs) of [] \<Rightarrow> rx_search p cs | (caps, rest) # _ \<Rightarrow> Some caps)"

definition chr :: "nat \<Rightarrow> rx" where
  \<comment> \<open>one plain character\<close>
  "chr c = Rep (\<lambda>x. x = c) 1 (Some 1) True"

definition digit_or_comma :: "nat \<Rightarrow> bool" where
  \<comment> \<open>the class \<open>[\\d,]\<close>\<close>
  "digit_or_comma c = (isdigit c \<or> c = comma)"

definition not_newline :: "nat \<Rightarrow> bool" where
  \<comment> \<open>the class \<open>.\<close>\<close>
  "not_newline c = (c \<noteq> 0x0A)"

definition pattern_a :: "rx list" where
  \<comment> \<open>\<open>(\\d{1,2}/\\d{1,2}/\\d{2,4})\\s+(.*?)\\s+([\\d,]+\\.\\d{2})\\s+([\\d,]+\\.\\d{2})\<close>\<close>
  "pattern_a =
    [Grp [Rep isdigit 1 (Some 2) True, chr 0x2F, Rep isdigit 1 (Some 2) True, chr 0x2F,
          Rep isdigit 2 (Some 4) True],
     Rep isspace 1 None True,
     Grp [Rep not_newline 0 None False],
     Rep isspace 1 None True,
     Grp [Rep digit_or_comma 1 None True, chr 0x2E, Rep isdigit 2 (Some 2) True],
     Rep isspace 1 None True,
     Grp [Rep digit_or_comma 1 None True, chr 0x2E, Rep isdigit 2 (Some 2) True]]"

definition pattern_b :: "rx list" where
  \<comment> \<open>\<open>(\\d{1,2}-\\d{1,2}-\\d{2,4})\\s+(.*?)\\s+(-?[\\d,]+\\.\\d{2})\<close>\<close>
  "pattern_b =
    [Grp [Rep isdigit 1 (Some 2) True, chr 0x2D, Rep isdigit 1 (Some 2) True, chr 0x2D,
          Rep isdigit 2 (Some 4) True],
     Rep isspace 1 None True,
     Grp [Rep not_newline 0 None False],
     Rep isspace 1 None True,
     Grp [Rep (\<lambda>x. x = 0x2D) 0 (Some 1) True, Rep digit_or_comma 1 None True, chr 0x2E,
          Rep isdigit 2 (Some 2) True]]"

fun patterns_loop :: "rx list list \<Rightarrow> pystr \<Rightarrow> transaction option" where
  \<comment> \<open>\<open>for pattern in patterns\<close>; a \<open>ValueError\<close> of \<open>float\<close> goes on to the next pattern.
      Both patterns have at least three groups, so \<open>match.group(3)\<close> exists on a match.\<close>
  "patterns_loop [] line = None"
| "patterns_loop (pattern # rest) line =
     (case rx_search pattern line of
        Some (group1 # group2 # group3 # _) \<Rightarrow>
          (let date' = group1;
               description' = strip group2;
               amount_str = replace group3 [comma] []
           in case py_float amount_str of
                None \<Rightarrow> patterns_loop rest line
              | Some amount' \<Rightarrow>
                  Some \<lparr>date = date', description = description', amount = amount',
                        category = fp_categorize_transaction description',
                        type = (if amount' > 0 then ascii ''income'' else ascii ''expense'')\<rparr>)
      | _ \<Rightarrow> patterns_loop rest line)"

definition parse_pdf_line :: "pystr \<Rightarrow> transaction option" where
  \<comment> \<open>lines 118 to 143\<close>
  "parse_pdf_line line = patterns_loop [pattern_a, pattern_b] line"


section \<open>The reports\<close>

text \<open>
  A breakdown is a Python dict from category to amount: its items in insertion order.
\<close>

type_synonym breakdown_dict = "(pystr \<times> real) list"

fun dict_get :: "('k \<times> 'v) list \<Rightarrow> 'k \<Rightarrow> 'v \<Rightarrow> 'v" where
  \<comment> \<open>\<open>d.get(k, default)\<close>\<close>
  "dict_get [] k d = d"
| "dict_get ((k', v') # rest) k d = (if k' = k then v' else dict_get rest k d)"

fun dict_set :: "('k \<times> 'v) list \<Rightarrow> 'k \<Rightarrow> 'v \<Rightarrow> ('k \<times> 'v) list" where
  \<comment> \<open>\<open>d[k] = v\<close>: a key that is present keeps its place, a new key goes last\<close>
  "dict_set [] k v = [(k, v)]"
| "dict_set ((k', v') # rest) k v = (if k' = k then (k, v) # rest else (k', v') # dict_set rest k v)"

definition dict_update :: "('k \<times> 'v) list \<Rightarrow> ('k \<times> 'v) list \<Rightarrow> ('k \<times> 'v) list" where
  \<comment> \<open>\<open>{**d, **items}\<close>\<close>
  "dict_update d items = foldl (\<lambda>acc (k, v). dict_set acc k v) d items"

definition dict_values_sum :: "breakdown_dict \<Rightarrow> real" where
  \<comment> \<open>\<open>sum(d.values())\<close>\<close>
  "dict_values_sum d = foldl (+) 0 (map snd d)"

record income_statement_rec =
  total_income :: real
  total_expenses :: real
  net_income :: real
  breakdown :: breakdown_dict

record balance_sheet_rec =
  total_assets :: real
  total_liabilities :: real
  total_equity :: real

record cash_flow_rec =
  operating_activities :: real
  investing_activities :: real
  financing_activities :: real
  net_cash_flow :: real

record reports =
  transactions :: "transaction list"
  income_statement :: income_statement_rec
  balance_sheet :: balance_sheet_rec
  cash_flow :: cash_flow_rec

text \<open>
  The \<open>for transaction in transactions\<close> loop of \<open>generate_reports\<close>, the same text in
  both files, on the pair of \<open>income_breakdown\<close> and \<open>expense_breakdown\<close>.
\<close>

fun breakdown_loop :: "transaction list \<Rightarrow> breakdown_dict \<times> breakdown_dict
    \<Rightarrow> breakdown_dict \<times> breakdown_dict" where
  "breakdown_loop [] acc = acc"
| "breakdown_loop (t # ts) (income_breakdown, expense_breakdown) =
     (if amount t > 0
      then breakdown_loop ts
             (dict_set income_breakdown (category t)
                (dict_get income_breakdown (category t) 0 + amount t), expense_breakdown)
      else breakdown_loop ts
             (income_breakdown,
              dict_set expense_breakdown (category t)
                (dict_get expense_breakdown (category t) 0 + \<bar>amount t\<bar>)))"

definition merged_breakdown :: "breakdown_dict \<Rightarrow> breakdown_dict \<Rightarrow> breakdown_dict" where
  \<comment> \<open>\<open>{**income_breakdown, **{f"expense_{k}": -v for k, v in expense_breakdown.items()}}\<close>\<close>
  "merged_breakdown income_breakdown expense_breakdown =
     dict_update income_breakdown
       (dict_update [] (map (\<lambda>(k, v). (ascii ''expense_'' @ k, - v)) expense_breakdown))"

definition generate_reports :: "transaction list \<Rightarrow> reports" where
  \<comment> \<open>\<open>app.py\<close> lines 114 to 135\<close>
  "generate_reports txs =
     (let (income_breakdown, expense_breakdown) = breakdown_loop txs ([], []);
          total_income' = dict_values_sum income_breakdown;
          total_expenses' = dict_values_sum expense_breakdown;
          net_income' = total_income' - total_expenses';
          total_assets' = total_income' * 0.7;
          total_liabilities' = total_expenses' * 0.3;
          total_equity' = total_assets' - total_liabilities';
          operating_cash = net_income';
          investing_cash = total_income' * 0.1;
          financing_cash = total_expenses' * 0.1;
          net_cash_flow' = operating_cash + investing_cash + financing_cash
      in \<lparr>transactions = txs,
          income_statement = \<lparr>total_income = total_income', total_expenses = total_expenses',
             net_income = net_income',
             breakdown = merged_breakdown income_breakdown expense_breakdown\<rparr>,
          balance_sheet = \<lparr>total_assets = total_assets', total_liabilities = total_liabilities',
             total_equity = total_equity'\<rparr>,
          cash_flow = \<lparr>operating_activities = operating_cash, investing_activities = investing_cash,
             financing_activities = financing_cash, net_cash_flow = net_cash_flow'\<rparr>\<rparr>)"

definition fp_generate_reports :: "transaction list \<Rightarrow> reports" where
  \<comment> \<open>\<open>processor.py\<close> lines 166 to 212\<close>
  "fp_generate_reports txs =
     (let (income_breakdown, expense_breakdown) = breakdown_loop txs ([], []);
          total_income' = dict_values_sum income_breakdown;
          total_expenses' = dict_values_sum expense_breakdown;
          net_income' = total_income' - total_expenses';
          total_assets' = total_income' * 0.7;
          total_liabilities' = total_expenses' * 0.3;
          total_equity' = total_assets' - total_liabilities';
          operating_cash = net_income';
          investing_cash = total_income' * 0.1;
          financing_cash = total_expenses' * 0.1;
          net_cash_flow' = operating_cash + investing_cash + financing_cash
      in \<lparr>transactions = txs,
          income_statement = \<lparr>total_income = total_income', total_expenses = total_expenses',
             net_income = net_income',
             breakdown = merged_breakdown income_breakdown expense_breakdown\<rparr>,
          balance_sheet = \<lparr>total_assets = total_assets', total_liabilities = total_liabilities',
             total_equity = total_equity'\<rparr>,
          cash_flow = \<lparr>operating_activities = operating_cash, investing_activities = investing_cash,
             financing_activities = financing_cash, net_cash_flow = net_cash_flow'\<rparr>\<rparr>)"

section \<open>\<open>app.py\<close>: the batch of uploaded files\<close>

text \<open>
  Reading an upload and decoding it with pandas is the work of libraries. The two
  decoders are parameters: they give the rows of the file, or the text of the exception
  they raise. \<open>'c\<close> is the type of an upload's content.
\<close>

record 'c upload =
  filename :: "pystr option"
  content :: 'c

datatype file_status =
    StatusSuccess pystr nat  \<comment> \<open>\<open>filename\<close>, \<open>transactions_count\<close>\<close>
  | StatusError pystr pystr  \<comment> \<open>\<open>filename\<close>, \<open>error\<close>\<close>

datatype http_error = HTTPException nat pystr

record summary_rec =
  s_total_transactions :: nat
  s_total_income :: real
  s_total_expenses :: real
  s_net_income :: real

record response =
  status :: pystr
  processed_files :: "file_status list"
  summary :: summary_rec
  reports_of :: reports

definition process_rows :: "(real \<Rightarrow> pystr) \<Rightarrow> row list \<Rightarrow> transaction list" where
  \<comment> \<open>\<open>[t for _, row in df.iterrows() if (t := extract_transaction(row.to_dict()))]\<close>\<close>
  "process_rows frepr rows = List.map_filter (extract_transaction frepr) rows"

definition process_csv :: "(real \<Rightarrow> pystr) \<Rightarrow> ('c \<Rightarrow> pystr + row list) \<Rightarrow> 'c \<Rightarrow> pystr + transaction list" where
  \<comment> \<open>\<open>app.py\<close> lines 104 to 107\<close>
  "process_csv frepr read_csv file_content = map_sum id (process_rows frepr) (read_csv file_content)"

definition process_excel :: "(real \<Rightarrow> pystr) \<Rightarrow> ('c \<Rightarrow> pystr + row list) \<Rightarrow> 'c \<Rightarrow> pystr + transaction list" where
  \<comment> \<open>\<open>app.py\<close> lines 109 to 112\<close>
  "process_excel frepr read_excel file_content = map_sum id (process_rows frepr) (read_excel file_content)"

text \<open>
  The \<open>for file in files\<close> loop of \<open>process_files\<close> on the pair of \<open>all_transactions\<close>
  and \<open>processed_files_status\<close>. An exception inside the \<open>try\<close> appends an error entry
  and the loop goes on.
\<close>

fun files_loop :: "(real \<Rightarrow> pystr) \<Rightarrow> ('c \<Rightarrow> pystr + row list) \<Rightarrow> ('c \<Rightarrow> pystr + row list)
    \<Rightarrow> 'c upload list \<Rightarrow> transaction list \<times> file_status list
    \<Rightarrow> transaction list \<times> file_status list" where
  "files_loop frepr read_csv read_excel [] acc = acc"
| "files_loop frepr read_csv read_excel (file # files) (all_transactions, processed_files_status) =
     (case filename file of
        None \<Rightarrow> files_loop frepr read_csv read_excel files (all_transactions, processed_files_status)
      | Some name \<Rightarrow>
          if name = [] then
            files_loop frepr read_csv read_excel files (all_transactions, processed_files_status)
          else if endswith (lower name) (ascii ''.csv'') then
            (case process_csv frepr read_csv (content file) of
               Inl e \<Rightarrow> files_loop frepr read_csv read_excel files
                          (all_transactions, processed_files_status @ [StatusError name e])
             | Inr txs \<Rightarrow> files_loop frepr read_csv read_excel files
                          (all_transactions @ txs,
                           processed_files_status @ [StatusSuccess name (length txs)]))
          else if endswith (lower name) (ascii ''.xlsx'') \<or> endswith (lower name) (ascii ''.xls'') then
            (case process_excel frepr read_excel (content file) of
               Inl e \<Rightarrow> files_loop frepr read_csv read_excel files
                          (all_transactions, processed_files_status @ [StatusError name e])
             | Inr txs \<Rightarrow> files_loop frepr read_csv read_excel files
                          (all_transactions @ txs,
                           processed_files_status @ [StatusSuccess name (length txs)]))
          else
            files_loop frepr read_csv read_excel files
              (all_transactions,
               processed_files_status @ [StatusError name (ascii ''Unsupported file format'')]))"

definition process_files :: "(real \<Rightarrow> pystr) \<Rightarrow> ('c \<Rightarrow> pystr + row list) \<Rightarrow> ('c \<Rightarrow> pystr + row list)
    \<Rightarrow> 'c upload list \<Rightarrow> http_error + response" where
  \<comment> \<open>\<open>app.py\<close> lines 167 to 204\<close>
  "process_files frepr read_csv read_excel files =
     (let (all_transactions, processed_files_status) =
            files_loop frepr read_csv read_excel files ([], [])
      in if all_transactions = [] then
           Inl (HTTPException 400 (ascii ''No valid transactions found in any file''))
         else
           let reports' = generate_reports all_transactions
           in Inr \<lparr>status = ascii ''success'',
                   processed_files = processed_files_status,
                   summary = \<lparr>s_total_transactions = length all_transactions,
                              s_total_income = total_income (income_statement reports'),
                              s_total_expenses = total_expenses (income_statement reports'),
                              s_net_income = net_income (income_statement reports')\<rparr>,
                   reports_of = reports'\<rparr>)"


section \<open>Empty cells: values and amounts that may be NaN\<close>

text \<open>
  pandas decodes an empty cell as the float NaN. NaN is a float that is no real number:
  \<open>==\<close> and \<open>>\<close> with it are false, \<open>abs\<close> and negation keep it, \<open>str\<close> of it is \<open>nan\<close>,
  \<open>pd.isna\<close> holds of it, and it is neither \<open>None\<close> nor the empty string. The functions
  above take values and amounts that are not NaN. The definitions of this section are the
  same source functions on cells and amounts that may be NaN: \<open>parse_amount\<close> (the
  \<open>isinstance\<close> branch of \<open>app.py\<close> returns \<open>float(nan)\<close>, the \<open>pd.isna\<close> test of
  \<open>processor.py\<close> line 147 returns 0) and \<open>extract_transaction\<close> of both files.
\<close>

datatype pyfloat = NaN | Finite real

datatype cell = NaNCell | Cell pyvalue

type_synonym cell_row = "(pystr option \<times> cell) list"

fun float_abs :: "pyfloat \<Rightarrow> pyfloat" where
  "float_abs NaN = NaN"
| "float_abs (Finite r) = Finite \<bar>r\<bar>"

fun float_neg :: "pyfloat \<Rightarrow> pyfloat" where
  "float_neg NaN = NaN"
| "float_neg (Finite r) = Finite (- r)"

fun is_zero :: "pyfloat \<Rightarrow> bool" where
  "is_zero NaN = False"
| "is_zero (Finite r) = (r = 0)"

fun is_positive :: "pyfloat \<Rightarrow> bool" where
  "is_positive NaN = False"
| "is_positive (Finite r) = (r > 0)"

fun cell_str :: "(real \<Rightarrow> pystr) \<Rightarrow> cell \<Rightarrow> pystr" where
  "cell_str frepr NaNCell = ascii ''nan''"
| "cell_str frepr (Cell v) = py_str frepr v"

text \<open>\<open>parse_amount\<close> of \<open>app.py\<close> and of \<open>processor.py\<close> on a cell.\<close>

fun parse_amount_cell :: "cell \<Rightarrow> pyfloat" where
  "parse_amount_cell NaNCell = NaN"
| "parse_amount_cell (Cell v) = Finite (parse_amount v)"

fun fp_parse_amount_cell :: "cell \<Rightarrow> pyfloat" where
  "fp_parse_amount_cell NaNCell = Finite 0"
| "fp_parse_amount_cell (Cell v) = Finite (fp_parse_amount v)"

text \<open>
  The loop, the two searches and the two \<open>extract_transaction\<close>, as above; \<open>amount == 0\<close> is
  \<open>is_zero\<close> and \<open>amount > 0\<close> is \<open>is_positive\<close>.
\<close>

fun amount_loop_cell :: "(cell \<Rightarrow> pyfloat) \<Rightarrow> cell_row \<Rightarrow> pyfloat" where
  "amount_loop_cell parse [] = Finite 0"
| "amount_loop_cell parse ((key, value) # rest) =
     (if truthy key \<and> value \<noteq> Cell PyNone then
        (let key_lower = lower (key_str key) in
         if any_in amount_terms key_lower then parse value
         else if any_in debit_terms key_lower then float_neg (float_abs (parse value))
         else if any_in credit_terms key_lower then float_abs (parse value)
         else amount_loop_cell parse rest)
      else amount_loop_cell parse rest)"

definition find_description_cell :: "(real \<Rightarrow> pystr) \<Rightarrow> cell_row \<Rightarrow> pystr \<Rightarrow> pystr" where
  "find_description_cell frepr row d =
     next_or (map (\<lambda>(key, value). cell_str frepr value)
                (filter (\<lambda>(key, value). truthy key \<and> any_in description_terms (lower (key_str key))) row)) d"

definition find_date_cell :: "(real \<Rightarrow> pystr) \<Rightarrow> cell_row \<Rightarrow> pystr" where
  "find_date_cell frepr row =
     next_or (map (\<lambda>(key, value). cell_str frepr value)
                (filter (\<lambda>(key, value). truthy key \<and> contains (lower (key_str key)) (ascii ''date'')) row)) []"

record float_transaction =
  f_date :: pystr
  f_description :: pystr
  f_amount :: pyfloat
  f_category :: pystr
  f_type :: pystr

definition extract_transaction_cell :: "(real \<Rightarrow> pystr) \<Rightarrow> cell_row \<Rightarrow> float_transaction option" where
  "extract_transaction_cell frepr row =
     (let amount' = amount_loop_cell parse_amount_cell row in
      if is_zero amount' then None
      else
        let description' = find_description_cell frepr row (ascii ''Unknown Transaction'');
            date' = find_date_cell frepr row;
            category' = categorize_transaction description'
        in Some \<lparr>f_date = date', f_description = description', f_amount = amount',
                 f_category = category',
                 f_type = (if is_positive amount' then ascii ''income'' else ascii ''expense'')\<rparr>)"

definition fp_extract_transaction_cell :: "(real \<Rightarrow> pystr) \<Rightarrow> cell_row \<Rightarrow> float_transaction option" where
  "fp_extract_transaction_cell frepr row =
     (let amount' = amount_loop_cell fp_parse_amount_cell row in
      if is_zero amount' then None
      else
        let description' = find_description_cell frepr row (ascii ''Unknown'');
            date' = find_date_cell frepr row;
            category' = fp_categorize_transaction description'
        in Some \<lparr>f_date = date', f_description = description', f_amount = amount',
                 f_category = category',
                 f_type = (if is_positive amount' then ascii ''income'' else ascii ''expense'')\<rparr>)"

section \<open>The reports in floating-point arithmetic\<close>

text \<open>
  A Python float is a binary64 number, and every arithmetic operation rounds its exact
  result to the nearest binary64 number, ties to the even one. \<open>binary64\<close> is that
  rounding: the value is scaled by a power of two to a mantissa between \<open>2^52\<close> and \<open>2^53\<close>,
  the mantissa is rounded to an integer and scaled back. Overflow to infinity and the
  coarser spacing of subnormal numbers are outside the model.
\<close>

definition round_even :: "real \<Rightarrow> int" where
  "round_even y = (let f = \<lfloor>y\<rfloor>; d = y - of_int f in
     if d < 1 / 2 then f else if 1 / 2 < d then f + 1 else if even f then f else f + 1)"

fun mant_exp :: "nat \<Rightarrow> real \<Rightarrow> int \<Rightarrow> real \<times> int" where
  "mant_exp 0 m e = (m, e)"
| "mant_exp (Suc n) m e =
     (if 2 ^ 53 \<le> \<bar>m\<bar> then mant_exp n (m / 2) (e + 1)
      else if \<bar>m\<bar> < 2 ^ 52 then mant_exp n (m * 2) (e - 1)
      else (m, e))"

definition scale2 :: "real \<Rightarrow> int \<Rightarrow> real" where
  "scale2 x e = (if 0 \<le> e then x * 2 ^ nat e else x / 2 ^ nat (- e))"

definition fuel :: nat where
  "fuel = 2200"

definition binary64 :: "real \<Rightarrow> real" where
  "binary64 x = (let (m, e) = mant_exp fuel x 0 in scale2 (of_int (round_even m)) e)"

text \<open>
  \<open>generate_reports\<close> (the same text in both files) with the result of each arithmetic
  operation rounded by \<open>fl\<close>; the literals \<open>0.7\<close>, \<open>0.3\<close> and \<open>0.1\<close> are rounded too. \<open>sum\<close>
  adds from left to right (CPython from 3.12 on compensates the rounding errors of a sum
  of floats; the two agree when the sum has at most one term or no addition rounds).
  With the identity for \<open>fl\<close> this is \<open>generate_reports\<close> above.
\<close>

fun breakdown_loop_rounded :: "(real \<Rightarrow> real) \<Rightarrow> transaction list
    \<Rightarrow> breakdown_dict \<times> breakdown_dict \<Rightarrow> breakdown_dict \<times> breakdown_dict" where
  "breakdown_loop_rounded fl [] acc = acc"
| "breakdown_loop_rounded fl (t # ts) (income_breakdown, expense_breakdown) =
     (if amount t > 0
      then breakdown_loop_rounded fl ts
             (dict_set income_breakdown (category t)
                (fl (dict_get income_breakdown (category t) 0 + amount t)), expense_breakdown)
      else breakdown_loop_rounded fl ts
             (income_breakdown,
              dict_set expense_breakdown (category t)
                (fl (dict_get expense_breakdown (category t) 0 + \<bar>amount t\<bar>))))"

definition dict_values_sum_rounded :: "(real \<Rightarrow> real) \<Rightarrow> breakdown_dict \<Rightarrow> real" where
  "dict_values_sum_rounded fl d = foldl (\<lambda>a v. fl (a + v)) 0 (map snd d)"

definition generate_reports_rounded :: "(real \<Rightarrow> real) \<Rightarrow> transaction list \<Rightarrow> reports" where
  "generate_reports_rounded fl txs =
     (let (income_breakdown, expense_breakdown) = breakdown_loop_rounded fl txs ([], []);
          total_income' = dict_values_sum_rounded fl income_breakdown;
          total_expenses' = dict_values_sum_rounded fl expense_breakdown;
          net_income' = fl (total_income' - total_expenses');
          total_assets' = fl (total_income' * fl 0.7);
          total_liabilities' = fl (total_expenses' * fl 0.3);
          total_equity' = fl (total_assets' - total_liabilities');
          operating_cash = net_income';
          investing_cash = fl (total_income' * fl 0.1);
          financing_cash = fl (total_expenses' * fl 0.1);
          net_cash_flow' = fl (fl (operating_cash + investing_cash) + financing_cash)
      in \<lparr>transactions = txs,
          income_statement = \<lparr>total_income = total_income', total_expenses = total_expenses',
             net_income = net_income',
             breakdown = merged_breakdown income_breakdown expense_breakdown\<rparr>,
          balance_sheet = \<lparr>total_assets = total_assets', total_liabilities = total_liabilities',
             total_equity = total_equity'\<rparr>,
          cash_flow = \<lparr>operating_activities = operating_cash, investing_activities = investing_cash,
             financing_activities = financing_cash, net_cash_flow = net_cash_flow'\<rparr>\<rparr>)"

section \<open>The properties, in the words of the specification\<close>

text \<open>
  The taxonomy read as one list of labels \<open>{main}_{sub}\<close> with their keywords, in
  declaration order, and the categorizer as the first label of that list one of whose
  keywords is in the lowercased description.
\<close>

definition labelled_keywords :: "chart \<Rightarrow> (pystr \<times> pystr list) list" where
  "labelled_keywords ch =
     concat (map (\<lambda>(main_cat, sub_cats).
                    map (\<lambda>(sub_cat, keywords). (main_cat @ ascii ''_'' @ sub_cat, keywords)) sub_cats) ch)"

definition categorize_spec :: "chart \<Rightarrow> pystr \<Rightarrow> pystr" where
  "categorize_spec ch d =
     (case find (\<lambda>(label, keywords). list_ex (\<lambda>keyword. contains (lower d) keyword) keywords)
                (labelled_keywords ch) of
        None \<Rightarrow> ascii ''uncategorized''
      | Some (label, keywords) \<Rightarrow> label)"

text \<open>
  An amount-bearing field has a non-null value and a name that contains, lowercased, one
  of the nine terms. \<open>resolved_amount\<close> is the amount such a field gives.
\<close>

definition amount_field :: "pystr option \<Rightarrow> pyvalue \<Rightarrow> bool" where
  "amount_field key value =
     (value \<noteq> PyNone
      \<and> (any_in amount_terms (lower (key_str key)) \<or> any_in debit_terms (lower (key_str key))
         \<or> any_in credit_terms (lower (key_str key))))"

definition resolved_amount :: "(pyvalue \<Rightarrow> real) \<Rightarrow> pystr option \<Rightarrow> pyvalue \<Rightarrow> real" where
  "resolved_amount parse key value =
     (if any_in amount_terms (lower (key_str key)) then parse value
      else if any_in debit_terms (lower (key_str key)) then - \<bar>parse value\<bar>
      else \<bar>parse value\<bar>)"

text \<open>
  The examples hold no float, so the text of a float is never asked for; \<open>frepr0\<close>
  stands for the float printing there. \<open>debit_row\<close> is the record of the extraction
  example, \<open>zero_line\<close> a statement line whose amount column is zero.
\<close>

definition frepr0 :: "real \<Rightarrow> pystr" where
  "frepr0 r = []"


definition zero_line :: pystr where
  "zero_line = ascii ''01/01/2024 Test 0.00 100.00''"

text \<open>The two records of the end-to-end example.\<close>

definition salary_row :: row where
  "salary_row = [(Some (ascii ''Date''), PyStr (ascii ''01/01/2024'')),
                (Some (ascii ''Description''), PyStr (ascii ''Salary'')),
                (Some (ascii ''Credit''), PyStr (ascii ''50000''))]"

definition rent_row :: row where
  "rent_row = [(Some (ascii ''Date''), PyStr (ascii ''02/01/2024'')),
              (Some (ascii ''Description''), PyStr (ascii ''Rent payment'')),
              (Some (ascii ''Debit''), PyStr (ascii ''15000''))]"

text \<open>The fields of a record whose name is neither null nor empty.\<close>

definition named_fields :: "row \<Rightarrow> row" where
  "named_fields row = filter (\<lambda>(key, value). truthy key) row"

definition nameless_row :: row where
  "nameless_row = [(Some [], PyInt 100), (None, PyStr (ascii ''2024-01-01'')),
                   (Some (ascii ''Narration''), PyStr (ascii ''Tea''))]"

text \<open>
  The sum of the positive amounts, the sum of the absolute values of the negative
  amounts, and the ten totals of the reports.
\<close>

definition income_sum :: "transaction list \<Rightarrow> real" where
  "income_sum txs = sum_list (map amount (filter (\<lambda>t. amount t > 0) txs))"

definition expense_sum :: "transaction list \<Rightarrow> real" where
  "expense_sum txs = sum_list (map (\<lambda>t. \<bar>amount t\<bar>) (filter (\<lambda>t. amount t < 0) txs))"

definition totals :: "reports \<Rightarrow> real list" where
  "totals r = [total_income (income_statement r), total_expenses (income_statement r),
     net_income (income_statement r), total_assets (balance_sheet r),
     total_liabilities (balance_sheet r), total_equity (balance_sheet r),
     operating_activities (cash_flow r), investing_activities (cash_flow r),
     financing_activities (cash_flow r), net_cash_flow (cash_flow r)]"

text \<open>
  The two transactions of the end-to-end example, and its records with the amount
  column before the description.
\<close>

definition salary_tx :: transaction where
  "salary_tx = \<lparr>date = ascii ''01/01/2024'', description = ascii ''Salary'', amount = 50000,
     category = ascii ''income_salary'', type = ascii ''income''\<rparr>"

definition rent_tx :: transaction where
  "rent_tx = \<lparr>date = ascii ''02/01/2024'', description = ascii ''Rent payment'', amount = - 15000,
     category = ascii ''expenses_housing'', type = ascii ''expense''\<rparr>"

definition salary_row_credit_first :: row where
  "salary_row_credit_first = [(Some (ascii ''Date''), PyStr (ascii ''01/01/2024'')),
                (Some (ascii ''Credit''), PyStr (ascii ''50000'')),
                (Some (ascii ''Description''), PyStr (ascii ''Salary''))]"

definition rent_row_debit_first :: row where
  "rent_row_debit_first = [(Some (ascii ''Date''), PyStr (ascii ''02/01/2024'')),
              (Some (ascii ''Debit''), PyStr (ascii ''15000'')),
              (Some (ascii ''Description''), PyStr (ascii ''Rent payment''))]"

text \<open>
  The text of a rupee sign followed by 500. A plain value is one on which the
  currency-sign handling of the two \<open>parse_amount\<close> has nothing to do: any value that is
  not text, and text with no rupee sign, no euro sign and, once its commas are removed,
  no occurrence of the three characters that \<open>processor.py\<close> removes.
\<close>

definition rupee_500 :: pystr where
  "rupee_500 = rupee # ascii ''500''"

definition plain_value :: "pyvalue \<Rightarrow> bool" where
  "plain_value v = (case v of
       PyStr s \<Rightarrow> rupee \<notin> set s \<and> euro \<notin> set s \<and> \<not> contains (replace s [comma] []) mojibake_rupee
     | _ \<Rightarrow> True)"

definition has_description_field :: "row \<Rightarrow> bool" where
  "has_description_field row =
     list_ex (\<lambda>(key, value). truthy key \<and> any_in description_terms (lower (key_str key))) row"

definition amount_row :: row where
  "amount_row = [(Some (ascii ''Amount''), PyInt 5)]"

text \<open>
  What the batch does with one file, taken alone: it is skipped (no name), it fails with
  an error text (unsupported extension, or the error of the decoder), or it succeeds with
  its transactions. The transactions and the status list of a batch are those of its
  files, in order.
\<close>

datatype file_outcome = Skipped | Failed pystr pystr | Succeeded pystr "transaction list"

definition file_outcome :: "(real \<Rightarrow> pystr) \<Rightarrow> ('c \<Rightarrow> pystr + row list) \<Rightarrow> ('c \<Rightarrow> pystr + row list)
    \<Rightarrow> 'c upload \<Rightarrow> file_outcome" where
  "file_outcome frepr read_csv read_excel file =
     (case filename file of
        None \<Rightarrow> Skipped
      | Some name \<Rightarrow>
          if name = [] then Skipped
          else if endswith (lower name) (ascii ''.csv'') then
            (case read_csv (content file) of
               Inl e \<Rightarrow> Failed name e
             | Inr rows \<Rightarrow> Succeeded name (List.map_filter (extract_transaction frepr) rows))
          else if endswith (lower name) (ascii ''.xlsx'') \<or> endswith (lower name) (ascii ''.xls'') then
            (case read_excel (content file) of
               Inl e \<Rightarrow> Failed name e
             | Inr rows \<Rightarrow> Succeeded name (List.map_filter (extract_transaction frepr) rows))
          else Failed name (ascii ''Unsupported file format''))"

fun outcome_transactions :: "file_outcome \<Rightarrow> transaction list" where
  "outcome_transactions (Succeeded name txs) = txs"
| "outcome_transactions _ = []"

fun outcome_status :: "file_outcome \<Rightarrow> file_status list" where
  "outcome_status Skipped = []"
| "outcome_status (Failed name e) = [StatusError name e]"
| "outcome_status (Succeeded name txs) = [StatusSuccess name (length txs)]"

definition batch_transactions :: "(real \<Rightarrow> pystr) \<Rightarrow> ('c \<Rightarrow> pystr + row list) \<Rightarrow> ('c \<Rightarrow> pystr + row list)
    \<Rightarrow> 'c upload list \<Rightarrow> transaction list" where
  "batch_transactions frepr read_csv read_excel files =
     concat (map (\<lambda>file. outcome_transactions (file_outcome frepr read_csv read_excel file)) files)"

definition batch_status :: "(real \<Rightarrow> pystr) \<Rightarrow> ('c \<Rightarrow> pystr + row list) \<Rightarrow> ('c \<Rightarrow> pystr + row list)
    \<Rightarrow> 'c upload list \<Rightarrow> file_status list" where
  "batch_status frepr read_csv read_excel files =
     concat (map (\<lambda>file. outcome_status (file_outcome frepr read_csv read_excel file)) files)"

text \<open>
  An example batch. The content of an upload is what the decoder makes of it: rows, or
  an error text.
\<close>

definition as_decoded :: "(pystr + row list) \<Rightarrow> pystr + row list" where
  "as_decoded c = c"

definition good_csv :: "(pystr + row list) upload" where
  "good_csv = \<lparr>filename = Some (ascii ''Statement.CSV''),
     content = Inr [salary_row_credit_first, salary_row, rent_row_debit_first]\<rparr>"

definition bad_xlsx :: "(pystr + row list) upload" where
  "bad_xlsx = \<lparr>filename = Some (ascii ''broken.xlsx''), content = Inl (ascii ''File is not a zip file'')\<rparr>"

definition notes_txt :: "(pystr + row list) upload" where
  "notes_txt = \<lparr>filename = Some (ascii ''notes.txt''), content = Inr []\<rparr>"

text \<open>The number of groups of a pattern.\<close>

fun group_count :: "rx list \<Rightarrow> nat" where
  "group_count [] = 0"
| "group_count (Rep P lo hi greedy # rs) = group_count rs"
| "group_count (Grp body # rs) = Suc (group_count body + group_count rs)"

text \<open>
  A number is on the grid \<open>q\<close> when it is an integer multiple of \<open>2^-q\<close>: a whole number
  for \<open>q = 0\<close>. \<open>abs_sum\<close> is the sum of the absolute values of the amounts, and
  \<open>income_totals\<close> the three totals of the income statement. The transactions are those of
  the examples.
\<close>

definition on_grid :: "nat \<Rightarrow> real \<Rightarrow> bool" where
  "on_grid q x = (x * 2 ^ q \<in> \<int>)"

definition abs_sum :: "transaction list \<Rightarrow> real" where
  "abs_sum txs = sum_list (map (\<lambda>t. \<bar>amount t\<bar>) txs)"

definition income_totals :: "reports \<Rightarrow> real list" where
  "income_totals r = [total_income (income_statement r), total_expenses (income_statement r),
     net_income (income_statement r)]"

definition derived_totals :: "(real \<Rightarrow> real) \<Rightarrow> real \<Rightarrow> real \<Rightarrow> real list" where
  \<comment> \<open>the ten totals as the rounded formulas make them from total income and total expenses\<close>
  "derived_totals fl ti te =
     (let ni = fl (ti - te); ta = fl (ti * fl 0.7); tl = fl (te * fl 0.3);
          inv = fl (ti * fl 0.1); fin = fl (te * fl 0.1)
      in [ti, te, ni, ta, tl, fl (ta - tl), ni, inv, fin, fl (fl (ni + inv) + fin)])"

definition one_tx :: transaction where
  "one_tx = \<lparr>date = ascii ''01/01/2024'', description = ascii ''Salary'', amount = 1,
     category = ascii ''income_salary'', type = ascii ''income''\<rparr>"

definition two_tx :: transaction where
  "two_tx = \<lparr>date = ascii ''02/01/2024'', description = ascii ''Salary'', amount = 2,
     category = ascii ''income_salary'', type = ascii ''income''\<rparr>"

definition grid_dict :: "nat \<Rightarrow> breakdown_dict \<Rightarrow> bool" where
  "grid_dict q d = (\<forall>(k, v) \<in> set d. on_grid q v \<and> 0 \<le> v)"

definition half_tx :: transaction where
  "half_tx = \<lparr>date = ascii ''03/01/2024'', description = ascii ''Refund'', amount = 1234.5,
     category = ascii ''income_other_income'', type = ascii ''income''\<rparr>"

text \<open>
  A record without NaN as a record of cells, and a transaction as one whose amount may be
  NaN. The deciding field of a record is its first field with a non-null value and a name
  that contains one of the nine terms; a plain cell is a plain value (so not NaN). The
  records are those of the examples.
\<close>

definition of_transaction :: "transaction \<Rightarrow> float_transaction" where
  "of_transaction t = \<lparr>f_date = date t, f_description = description t, f_amount = Finite (amount t),
     f_category = category t, f_type = type t\<rparr>"

definition of_row :: "row \<Rightarrow> cell_row" where
  "of_row row = map (\<lambda>(key, value). (key, Cell value)) row"

definition amount_cell :: "pystr option \<Rightarrow> cell \<Rightarrow> bool" where
  "amount_cell key value =
     (value \<noteq> Cell PyNone
      \<and> (any_in amount_terms (lower (key_str key)) \<or> any_in debit_terms (lower (key_str key))
         \<or> any_in credit_terms (lower (key_str key))))"

definition deciding_field :: "cell_row \<Rightarrow> (pystr option \<times> cell) option" where
  "deciding_field row = find (\<lambda>(key, value). amount_cell key value) row"

definition plain_cell :: "cell \<Rightarrow> bool" where
  "plain_cell c = (case c of NaNCell \<Rightarrow> False | Cell v \<Rightarrow> plain_value v)"

definition plain_deciding_field :: "cell_row \<Rightarrow> bool" where
  "plain_deciding_field row =
     (case deciding_field row of None \<Rightarrow> True | Some (key, value) \<Rightarrow> plain_cell value)"

definition has_description_cell :: "cell_row \<Rightarrow> bool" where
  "has_description_cell row =
     list_ex (\<lambda>(key, value). truthy key \<and> any_in description_terms (lower (key_str key))) row"

definition empty_amount_row :: cell_row where
  "empty_amount_row = [(Some (ascii ''Amount''), NaNCell)]"

definition grocery_row :: cell_row where
  "grocery_row = [(Some (ascii ''Date''), NaNCell),
                 (Some (ascii ''Narration''), Cell (PyStr (ascii ''Grocery store''))),
                 (Some (ascii ''Amount''), Cell (PyStr (ascii ''$1,234.50'')))]"

definition dollar_row :: cell_row where
  "dollar_row = [(Some (ascii ''Amount''), Cell (PyStr (ascii ''$1,234.50'')))]"

section \<open>Substrings\<close>

lemma startswith_iff: "startswith s p \<longleftrightarrow> (\<exists>ss. s = p @ ss)"
  unfolding startswith_def
  by (metis append_eq_conv_conj append_take_drop_id)

text \<open>\<open>contains s sub\<close> is \<open>sub in s\<close>: \<open>sub\<close> occurs in \<open>s\<close> as a contiguous part.\<close>

lemma contains_iff: "contains s sub \<longleftrightarrow> (\<exists>ps ss. s = ps @ sub @ ss)"
proof (induction s)
  case Nil
  then show ?case by auto
next
  case (Cons c cs)
  show ?case
  proof
    assume "contains (c # cs) sub"
    then consider "startswith (c # cs) sub" | "contains cs sub" by auto
    then show "\<exists>ps ss. c # cs = ps @ sub @ ss"
    proof cases
      case 1
      then obtain ss where "c # cs = sub @ ss" by (auto simp: startswith_iff)
      then have "c # cs = [] @ sub @ ss" by simp
      then show ?thesis by blast
    next
      case 2
      then obtain ps ss where "cs = ps @ sub @ ss" using Cons.IH by auto
      then have "c # cs = (c # ps) @ sub @ ss" by simp
      then show ?thesis by blast
    qed
  next
    assume "\<exists>ps ss. c # cs = ps @ sub @ ss"
    then obtain ps ss where eq: "c # cs = ps @ sub @ ss" by auto
    show "contains (c # cs) sub"
    proof (cases ps)
      case Nil
      with eq have "startswith (c # cs) sub" by (auto simp: startswith_iff)
      then show ?thesis by simp
    next
      case (Cons p ps')
      with eq have "cs = ps' @ sub @ ss" by simp
      then have "contains cs sub" using Cons.IH by auto
      then show ?thesis by simp
    qed
  qed
qed

section \<open>The categorizer\<close>

lemma find_append_first:
  "find P (xs @ ys) = (case find P xs of None \<Rightarrow> find P ys | Some x \<Rightarrow> Some x)"
  by (induction xs) auto

lemma sub_cats_loop_find:
  "sub_cats_loop d main_cat sub_cats =
     map_option fst (find (\<lambda>(label, keywords). list_ex (\<lambda>keyword. contains d keyword) keywords)
       (map (\<lambda>(sub_cat, keywords). (main_cat @ ascii ''_'' @ sub_cat, keywords)) sub_cats))"
  by (induction sub_cats) auto

lemma main_cats_loop_find:
  "main_cats_loop d ch =
     (case find (\<lambda>(label, keywords). list_ex (\<lambda>keyword. contains d keyword) keywords)
                (labelled_keywords ch) of
        None \<Rightarrow> ascii ''uncategorized''
      | Some (label, keywords) \<Rightarrow> label)"
proof (induction ch)
  case Nil
  then show ?case by (simp add: labelled_keywords_def)
next
  case (Cons a ch)
  obtain main_cat sub_cats where a: "a = (main_cat, sub_cats)" by (cases a)
  have lk: "labelled_keywords (a # ch) =
      map (\<lambda>(sub_cat, keywords). (main_cat @ ascii ''_'' @ sub_cat, keywords)) sub_cats
      @ labelled_keywords ch"
    by (simp add: labelled_keywords_def a)
  show ?case
    unfolding lk find_append_first
    using Cons.IH
    by (auto simp: a sub_cats_loop_find split: option.splits)
qed

text \<open>
  The labels of the taxonomy in scanning order: those of \<open>income\<close> come before those of
  \<open>expenses\<close>, each group in the order of its sub-categories.
\<close>

lemma labelled_keywords_order:
  "map fst (labelled_keywords CHART_OF_ACCOUNTS) =
     map ascii [''income_salary'', ''income_business'', ''income_investment'',
       ''income_other_income'', ''expenses_housing'', ''expenses_utilities'', ''expenses_food'',
       ''expenses_transport'', ''expenses_healthcare'', ''expenses_entertainment'',
       ''expenses_shopping'']"
  by code_simp

lemma chart_of_accounts_same: "chart_of_accounts = CHART_OF_ACCOUNTS"
  by (simp add: chart_of_accounts_def CHART_OF_ACCOUNTS_def)

lemma categorize_spec_examples:
  "categorize_spec CHART_OF_ACCOUNTS (ascii ''Monthly Salary Payment'') = ascii ''income_salary''
   \<and> categorize_spec CHART_OF_ACCOUNTS (ascii ''Random text xyz'') = ascii ''uncategorized''"
  by code_simp

text \<open>
  C7. Both categorizers lowercase the description, scan the taxonomy in declaration
  order (main category, then sub-category, then keyword) and return the first label
  \<open>{main}_{sub}\<close> one of whose keywords is a substring of the lowercased description, and
  \<open>uncategorized\<close> when no keyword of the taxonomy is one.
\<close>

theorem categorize_first_match:
  "categorize_transaction d = categorize_spec CHART_OF_ACCOUNTS d
   \<and> fp_categorize_transaction d = categorize_spec chart_of_accounts d"
  by (simp add: categorize_transaction_def fp_categorize_transaction_def categorize_spec_def
      main_cats_loop_find)

theorem categorize_first_match_witness:
  "categorize_transaction (ascii ''Monthly Salary Payment'') = ascii ''income_salary''
   \<and> categorize_transaction (ascii ''Random text xyz'') = ascii ''uncategorized''
   \<and> fp_categorize_transaction (ascii ''Monthly Salary Payment'') = ascii ''income_salary''
   \<and> fp_categorize_transaction (ascii ''Random text xyz'') = ascii ''uncategorized''"
  using categorize_first_match [of "ascii ''Monthly Salary Payment''"]
    categorize_first_match [of "ascii ''Random text xyz''"]
    categorize_spec_examples
  by (simp add: chart_of_accounts_same)

section \<open>The extractor\<close>

lemma none_name_no_term:
  "\<not> any_in amount_terms (lower (key_str None)) \<and> \<not> any_in debit_terms (lower (key_str None))
   \<and> \<not> any_in credit_terms (lower (key_str None))
   \<and> \<not> any_in description_terms (lower (key_str None))
   \<and> \<not> contains (lower (key_str None)) (ascii ''date'')"
  by code_simp

lemma empty_name_no_term:
  "\<not> any_in amount_terms (lower (key_str (Some []))) \<and> \<not> any_in debit_terms (lower (key_str (Some [])))
   \<and> \<not> any_in credit_terms (lower (key_str (Some [])))
   \<and> \<not> any_in description_terms (lower (key_str (Some [])))
   \<and> \<not> contains (lower (key_str (Some []))) (ascii ''date'')"
  by code_simp

lemma not_truthy_cases: "\<not> truthy key \<Longrightarrow> key = None \<or> key = Some []"
  by (auto simp: truthy_def split: option.splits)

lemma amount_field_truthy: "amount_field key value \<Longrightarrow> truthy key"
  using none_name_no_term empty_name_no_term not_truthy_cases [of key]
  by (auto simp: amount_field_def)

lemma amount_loop_skip:
  "\<not> amount_field key value \<Longrightarrow> amount_loop parse ((key, value) # rest) = amount_loop parse rest"
  by (auto simp: amount_field_def Let_def)

lemma amount_loop_hit:
  "amount_field key value \<Longrightarrow> amount_loop parse ((key, value) # rest) = resolved_amount parse key value"
  using amount_field_truthy [of key "value"]
  by (auto simp: amount_field_def resolved_amount_def Let_def)

lemma amount_loop_first:
  assumes "\<forall>(k, v) \<in> set pre. \<not> amount_field k v" and "amount_field key value"
  shows "amount_loop parse (pre @ (key, value) # post) = resolved_amount parse key value"
  using assms
proof (induction pre)
  case Nil
  then show ?case by (simp only: append_Nil amount_loop_hit)
next
  case (Cons a pre)
  obtain k v where a: "a = (k, v)" by (cases a)
  from Cons.prems have "\<not> amount_field k v" by (simp add: a)
  then have "amount_loop parse ((a # pre) @ (key, value) # post)
      = amount_loop parse (pre @ (key, value) # post)"
    unfolding a append_Cons by (rule amount_loop_skip)
  with Cons show ?case by simp
qed

lemma amount_loop_none:
  assumes "\<forall>(k, v) \<in> set row. \<not> amount_field k v"
  shows "amount_loop parse row = 0"
  using assms
proof (induction row)
  case Nil
  then show ?case by simp
next
  case (Cons a row)
  obtain k v where a: "a = (k, v)" by (cases a)
  from Cons.prems have "\<not> amount_field k v" by (simp add: a)
  then have "amount_loop parse (a # row) = amount_loop parse row"
    unfolding a by (rule amount_loop_skip)
  with Cons show ?case by simp
qed













lemma extract_transaction_nonzero:
  "extract_transaction frepr row = Some t \<Longrightarrow> amount t \<noteq> 0"
  by (auto simp: extract_transaction_def Let_def split: if_splits)

lemma fp_extract_transaction_nonzero:
  "fp_extract_transaction frepr row = Some t \<Longrightarrow> amount t \<noteq> 0"
  by (auto simp: fp_extract_transaction_def Let_def split: if_splits)

lemma amount_is_amount_field: "amount_field (Some (ascii ''Amount'')) (PyInt 0)"
  by code_simp

lemma amount_generic: "any_in amount_terms (lower (key_str (Some (ascii ''Amount''))))"
  by code_simp

lemma extract_zero_amount:
  "extract_transaction frepr [(Some (ascii ''Amount''), PyInt 0)] = None"
  "fp_extract_transaction frepr [(Some (ascii ''Amount''), PyInt 0)] = None"
  using amount_loop_hit [OF amount_is_amount_field, of parse_amount "[]"]
    amount_loop_hit [OF amount_is_amount_field, of fp_parse_amount "[]"] amount_generic
  by (simp_all add: extract_transaction_def fp_extract_transaction_def resolved_amount_def
      parse_amount_def fp_parse_amount_def)

section \<open>The line parser\<close>

lemma zero_line_search:
  "rx_search pattern_a zero_line
     = Some [ascii ''01/01/2024'', ascii ''Test'', ascii ''0.00'', ascii ''100.00'']"
  by (simp add: zero_line_def pattern_a_def chr_def rep_counts_def isdigit_def isspace_def
      digit_or_comma_def not_newline_def comma_def ascii_def Let_def)

lemma zero_line_texts:
  "strip (ascii ''Test'') = ascii ''Test''"
  "replace (ascii ''0.00'') [comma] [] = ascii ''0.00''"
  by (simp_all add: strip_def isspace_def startswith_def comma_def ascii_def)

lemma uncategorized_test: "fp_categorize_transaction (ascii ''Test'') = ascii ''uncategorized''"
  by code_simp

lemma float_zero: "py_float (ascii ''0.00'') = Some 0"
  by (simp add: ascii_def strip_def isspace_def py_float_def split_sign_def isdigit_def
      float_exponent_def digits_value_def scale10_def)

text \<open>
  C3. A line whose amount column reads \<open>0.00\<close> matches the first pattern, and the line
  parser returns a transaction whose amount is zero: it has no check like the
  \<open>if amount == 0: return None\<close> of the extractor.
\<close>

theorem parse_pdf_line_zero_amount:
  "parse_pdf_line zero_line =
     Some \<lparr>date = ascii ''01/01/2024'', description = ascii ''Test'', amount = 0,
           category = ascii ''uncategorized'', type = ascii ''expense''\<rparr>"
  by (simp add: parse_pdf_line_def zero_line_search zero_line_texts uncategorized_test float_zero)

lemma date_not_amount_field: "\<not> amount_field (Some (ascii ''Date'')) v"
proof -
  have "\<not> any_in amount_terms (lower (key_str (Some (ascii ''Date''))))
    \<and> \<not> any_in debit_terms (lower (key_str (Some (ascii ''Date''))))
    \<and> \<not> any_in credit_terms (lower (key_str (Some (ascii ''Date''))))"
    by code_simp
  then show ?thesis by (simp add: amount_field_def)
qed

lemma description_is_credit_like:
  "\<not> any_in amount_terms (lower (key_str (Some (ascii ''Description''))))
   \<and> \<not> any_in debit_terms (lower (key_str (Some (ascii ''Description''))))
   \<and> any_in credit_terms (lower (key_str (Some (ascii ''Description''))))
   \<and> contains (lower (key_str (Some (ascii ''Description'')))) (ascii ''cr'')"
  by code_simp

lemma words_parse_to_zero:
  "parse_amount (PyStr (ascii ''Salary'')) = 0"
  "parse_amount (PyStr (ascii ''Rent payment'')) = 0"
  "fp_parse_amount (PyStr (ascii ''Salary'')) = 0"
  "fp_parse_amount (PyStr (ascii ''Rent payment'')) = 0"
  by (simp_all add: parse_amount_def fp_parse_amount_def ascii_def startswith_def comma_def
      rupee_def dollar_def euro_def mojibake_rupee_def strip_def isspace_def py_float_def
      split_sign_def isdigit_def float_exponent_def digits_value_def scale10_def)

lemma end_to_end_amounts:
  "amount_loop parse_amount salary_row = 0" "amount_loop parse_amount rent_row = 0"
  "amount_loop fp_parse_amount salary_row = 0" "amount_loop fp_parse_amount rent_row = 0"
proof -
  have hit: "amount_field (Some (ascii ''Description'')) (PyStr s)" for s
    using description_is_credit_like by (simp add: amount_field_def)
  have res: "resolved_amount parse (Some (ascii ''Description'')) v = \<bar>parse v\<bar>" for parse v
    using description_is_credit_like by (simp add: resolved_amount_def)
  have loop: "amount_loop parse ((Some (ascii ''Date''), d) # (Some (ascii ''Description''), PyStr s) # post)
      = \<bar>parse (PyStr s)\<bar>" for parse d s post
    using amount_loop_first [of "[(Some (ascii ''Date''), d)]" "Some (ascii ''Description'')" "PyStr s" parse post]
      date_not_amount_field hit res by simp
  show "amount_loop parse_amount salary_row = 0" "amount_loop parse_amount rent_row = 0"
    "amount_loop fp_parse_amount salary_row = 0" "amount_loop fp_parse_amount rent_row = 0"
    by (simp_all only: salary_row_def rent_row_def loop words_parse_to_zero abs_zero)
qed

text \<open>
  C1. On the two records of the end-to-end example the scan stops at the field
  \<open>Description\<close>: its lowercased name contains \<open>cr\<close>, so it is read as a credit-like
  field, its text parses to 0, and the record is rejected. Neither record gives a
  transaction, in either implementation.
\<close>

theorem end_to_end_rows_rejected:
  "extract_transaction frepr salary_row = None \<and> extract_transaction frepr rent_row = None
   \<and> fp_extract_transaction frepr salary_row = None \<and> fp_extract_transaction frepr rent_row = None
   \<and> process_rows frepr [salary_row, rent_row] = []"
  by (simp add: extract_transaction_def fp_extract_transaction_def end_to_end_amounts
      process_rows_def)

lemma amount_loop_named_fields: "amount_loop parse (named_fields row) = amount_loop parse row"
  by (induction row) (auto simp: named_fields_def Let_def)

lemma filter_named_fields:
  "filter (\<lambda>(key, value). truthy key \<and> P key) (named_fields row)
     = filter (\<lambda>(key, value). truthy key \<and> P key) row"
  unfolding named_fields_def filter_filter
  by (rule filter_cong) auto

lemma find_description_named_fields:
  "find_description frepr (named_fields row) d = find_description frepr row d"
  unfolding find_description_def by (simp only: filter_named_fields)

lemma find_date_named_fields: "find_date frepr (named_fields row) = find_date frepr row"
  unfolding find_date_def by (simp only: filter_named_fields)

text \<open>
  C10. Fields whose name is null or empty are ignored by the amount, the description and
  the date detection: both extractors give the same result on a record and on its fields
  with a name.
\<close>

theorem nameless_fields_ignored:
  "extract_transaction frepr row = extract_transaction frepr (named_fields row)
   \<and> fp_extract_transaction frepr row = fp_extract_transaction frepr (named_fields row)"
  by (simp add: extract_transaction_def fp_extract_transaction_def amount_loop_named_fields
      find_description_named_fields find_date_named_fields Let_def)

theorem nameless_fields_ignored_witness:
  "named_fields nameless_row = [(Some (ascii ''Narration''), PyStr (ascii ''Tea''))]
   \<and> extract_transaction frepr0 nameless_row = None
   \<and> fp_extract_transaction frepr0 nameless_row = None"
proof -
  have nf: "named_fields nameless_row = [(Some (ascii ''Narration''), PyStr (ascii ''Tea''))]"
    by (simp add: named_fields_def nameless_row_def truthy_def ascii_def)
  have "\<not> amount_field (Some (ascii ''Narration'')) (PyStr (ascii ''Tea''))"
    by code_simp
  then have z: "amount_loop parse [(Some (ascii ''Narration''), PyStr (ascii ''Tea''))] = 0" for parse
    using amount_loop_none [of "[(Some (ascii ''Narration''), PyStr (ascii ''Tea''))]" parse] by simp
  have "extract_transaction frepr0 (named_fields nameless_row) = None"
    "fp_extract_transaction frepr0 (named_fields nameless_row) = None"
    by (simp_all add: nf z extract_transaction_def fp_extract_transaction_def
        del: amount_loop.simps)
  with nameless_fields_ignored [of frepr0 nameless_row] nf show ?thesis by simp
qed

section \<open>The reports\<close>

lemma foldl_plus_sum_list: "foldl (+) a xs = a + sum_list (xs :: real list)"
  by (induction xs arbitrary: a) auto

lemma dict_values_sum_sum_list: "dict_values_sum d = sum_list (map snd d)"
  by (simp add: dict_values_sum_def foldl_plus_sum_list)

lemma dict_values_sum_set:
  "dict_values_sum (dict_set d k (dict_get d k 0 + a)) = dict_values_sum d + a"
  by (induction d) (auto simp: dict_values_sum_sum_list)

lemma breakdown_loop_sums:
  "dict_values_sum (fst (breakdown_loop txs (i, e))) = dict_values_sum i + income_sum txs
   \<and> dict_values_sum (snd (breakdown_loop txs (i, e))) = dict_values_sum e + expense_sum txs"
proof (induction txs arbitrary: i e)
  case Nil
  then show ?case by (simp add: income_sum_def expense_sum_def)
next
  case (Cons t txs)
  show ?case
  proof (cases "amount t > 0")
    case True
    have inc: "income_sum (t # txs) = amount t + income_sum txs"
      and exp: "expense_sum (t # txs) = expense_sum txs"
      using True by (simp_all add: income_sum_def expense_sum_def)
    have loop: "breakdown_loop (t # txs) (i, e) =
        breakdown_loop txs (dict_set i (category t) (dict_get i (category t) 0 + amount t), e)"
      using True by simp
    show ?thesis
      using Cons.IH [of "dict_set i (category t) (dict_get i (category t) 0 + amount t)" e]
      unfolding loop inc exp dict_values_sum_set by simp
  next
    case False
    have inc: "income_sum (t # txs) = income_sum txs"
      and exp: "expense_sum (t # txs) = \<bar>amount t\<bar> + expense_sum txs"
      using False by (auto simp: income_sum_def expense_sum_def)
    have loop: "breakdown_loop (t # txs) (i, e) =
        breakdown_loop txs
          (i, dict_set e (category t) (dict_get e (category t) 0 + \<bar>amount t\<bar>))"
      using False by simp
    show ?thesis
      using Cons.IH [of i "dict_set e (category t) (dict_get e (category t) 0 + \<bar>amount t\<bar>)"]
      unfolding loop inc exp dict_values_sum_set by simp
  qed
qed

lemma breakdown_loop_totals:
  "dict_values_sum (fst (breakdown_loop txs ([], []))) = income_sum txs"
  "dict_values_sum (snd (breakdown_loop txs ([], []))) = expense_sum txs"
  using breakdown_loop_sums [of txs "[]" "[]"] by (simp_all add: dict_values_sum_def)

lemma generate_reports_totals:
  "total_income (income_statement (generate_reports txs)) = income_sum txs"
  "total_expenses (income_statement (generate_reports txs)) = expense_sum txs"
  "net_income (income_statement (generate_reports txs)) = income_sum txs - expense_sum txs"
  by (simp_all add: generate_reports_def Let_def split_beta breakdown_loop_totals)

lemma fp_generate_reports_same: "fp_generate_reports txs = generate_reports txs"
  by (simp add: fp_generate_reports_def generate_reports_def)


lemma income_sum_append: "income_sum (A @ B) = income_sum A + income_sum B"
  by (simp add: income_sum_def)

lemma expense_sum_append: "expense_sum (A @ B) = expense_sum A + expense_sum B"
  by (simp add: expense_sum_def)

lemma totals_eq:
  "totals (generate_reports txs) =
    [income_sum txs, expense_sum txs, income_sum txs - expense_sum txs, income_sum txs * 0.7,
     expense_sum txs * 0.3, income_sum txs * 0.7 - expense_sum txs * 0.3,
     income_sum txs - expense_sum txs, income_sum txs * 0.1, expense_sum txs * 0.1,
     income_sum txs - expense_sum txs + income_sum txs * 0.1 + expense_sum txs * 0.1]"
  by (simp add: totals_def generate_reports_def Let_def split_beta breakdown_loop_totals)

text \<open>
  Without rounding, all totals are 0 and the breakdown is empty on the empty list, and
  the totals of a concatenation are the sums of the totals of its parts.
\<close>

lemma exact_totals_additive:
  "totals (generate_reports []) = replicate 10 0
   \<and> breakdown (income_statement (generate_reports [])) = []
   \<and> totals (generate_reports (A @ B))
       = map2 (+) (totals (generate_reports A)) (totals (generate_reports B))
   \<and> totals (fp_generate_reports []) = replicate 10 0
   \<and> breakdown (income_statement (fp_generate_reports [])) = []
   \<and> totals (fp_generate_reports (A @ B))
       = map2 (+) (totals (fp_generate_reports A)) (totals (fp_generate_reports B))"
proof -
  have e: "totals (generate_reports []) = replicate 10 0"
    by (simp add: totals_eq income_sum_def expense_sum_def numeral_eq_Suc)
  have b: "breakdown (income_statement (generate_reports [])) = []"
    by (simp add: generate_reports_def merged_breakdown_def dict_update_def Let_def)
  have a: "totals (generate_reports (A @ B))
       = map2 (+) (totals (generate_reports A)) (totals (generate_reports B))"
    by (simp add: totals_eq income_sum_append expense_sum_append add_divide_distrib
        algebra_simps)
  show ?thesis using e b a by (simp add: fp_generate_reports_same)
qed



lemma number_texts:
  "parse_amount (PyStr (ascii ''50000'')) = 50000"
  "parse_amount (PyStr (ascii ''15000'')) = 15000"
  by (simp_all add: parse_amount_def ascii_def startswith_def comma_def
      rupee_def dollar_def euro_def strip_def isspace_def py_float_def
      split_sign_def isdigit_def float_exponent_def digits_value_def scale10_def)

lemma credit_debit_kinds:
  "\<not> any_in amount_terms (lower (key_str (Some (ascii ''Credit''))))"
  "\<not> any_in debit_terms (lower (key_str (Some (ascii ''Credit''))))"
  "any_in credit_terms (lower (key_str (Some (ascii ''Credit''))))"
  "\<not> any_in amount_terms (lower (key_str (Some (ascii ''Debit''))))"
  "any_in debit_terms (lower (key_str (Some (ascii ''Debit''))))"
  by code_simp+

lemma reordered_texts:
  "find_description frepr salary_row_credit_first d = ascii ''Salary''"
  "find_date frepr salary_row_credit_first = ascii ''01/01/2024''"
  "find_description frepr rent_row_debit_first d = ascii ''Rent payment''"
  "find_date frepr rent_row_debit_first = ascii ''02/01/2024''"
  "categorize_transaction (ascii ''Salary'') = ascii ''income_salary''"
  "categorize_transaction (ascii ''Rent payment'') = ascii ''expenses_housing''"
  by code_simp+

lemma reordered_amounts:
  "amount_loop parse_amount salary_row_credit_first = 50000"
  "amount_loop parse_amount rent_row_debit_first = - 15000"
proof -
  have c: "amount_field (Some (ascii ''Credit'')) (PyStr s)"
    and d: "amount_field (Some (ascii ''Debit'')) (PyStr s)" for s
    using credit_debit_kinds by (simp_all add: amount_field_def)
  show "amount_loop parse_amount salary_row_credit_first = 50000"
    unfolding salary_row_credit_first_def
    using amount_loop_first [of "[(Some (ascii ''Date''), PyStr (ascii ''01/01/2024''))]"
        "Some (ascii ''Credit'')" "PyStr (ascii ''50000'')" parse_amount
        "[(Some (ascii ''Description''), PyStr (ascii ''Salary''))]"]
      date_not_amount_field c credit_debit_kinds
    by (simp add: resolved_amount_def number_texts del: amount_loop.simps)
  show "amount_loop parse_amount rent_row_debit_first = - 15000"
    unfolding rent_row_debit_first_def
    using amount_loop_first [of "[(Some (ascii ''Date''), PyStr (ascii ''02/01/2024''))]"
        "Some (ascii ''Debit'')" "PyStr (ascii ''15000'')" parse_amount
        "[(Some (ascii ''Description''), PyStr (ascii ''Rent payment''))]"]
      date_not_amount_field d credit_debit_kinds
    by (simp add: resolved_amount_def number_texts del: amount_loop.simps)
qed

text \<open>
  With the amount column before the description the two records of the end-to-end
  example give the two transactions of the example.
\<close>

lemma reordered_rows_accepted:
  "process_rows frepr [salary_row_credit_first, rent_row_debit_first] = [salary_tx, rent_tx]"
  by (simp add: process_rows_def extract_transaction_def reordered_amounts
      reordered_texts salary_tx_def rent_tx_def)

section \<open>The two implementations\<close>

lemma replace_char: "replace s [c] [] = filter (\<lambda>x. x \<noteq> c) s"
  by (induction s) (auto simp: startswith_def)

lemma replace_absent: "\<not> contains s old \<Longrightarrow> replace s old [] = s"
proof (induction s)
  case Nil
  then show ?case by simp
next
  case (Cons c cs)
  then show ?case by (cases "old = []") (auto simp: startswith_def)
qed

lemma parse_amount_text:
  "parse_amount (PyStr s) =
     (case py_float (strip (filter (\<lambda>x. x \<noteq> comma \<and> x \<noteq> rupee \<and> x \<noteq> dollar \<and> x \<noteq> euro) s)) of
        Some r \<Rightarrow> r | None \<Rightarrow> 0)"
proof -
  have e: "py_float [] = None"
    by (simp add: py_float_def strip_def split_sign_def)
  have f: "filter (\<lambda>x. x \<noteq> euro) (filter (\<lambda>x. x \<noteq> dollar) (filter (\<lambda>x. x \<noteq> rupee)
      (filter (\<lambda>x. x \<noteq> comma) s)))
      = filter (\<lambda>x. x \<noteq> comma \<and> x \<noteq> rupee \<and> x \<noteq> dollar \<and> x \<noteq> euro) s"
    by (simp add: conj_commute conj_left_commute)
  show ?thesis
  proof (cases "s = []")
    case True
    then show ?thesis by (simp add: parse_amount_def e strip_def)
  next
    case False
    then show ?thesis
      by (simp add: parse_amount_def replace_char f Let_def e)
  qed
qed

lemma parse_amount_simple:
  "parse_amount PyNone = 0" "parse_amount (PyStr []) = 0"
  "parse_amount (PyInt i) = real_of_int i" "parse_amount (PyFloat r) = r"
  by (simp_all add: parse_amount_def)

lemma parse_amount_examples:
  "parse_amount (PyStr (ascii ''1,234.50'')) = 1234.5"
  "parse_amount (PyStr rupee_500) = 500"
  "fp_parse_amount (PyStr (ascii ''1,234.50'')) = 1234.5"
  by (simp_all add: parse_amount_def fp_parse_amount_def rupee_500_def ascii_def startswith_def
      comma_def rupee_def dollar_def euro_def mojibake_rupee_def strip_def isspace_def
      py_float_def split_sign_def isdigit_def float_exponent_def digits_value_def scale10_def)

text \<open>
  C4. On the text of a rupee sign followed by 500, \<open>parse_amount\<close> of \<open>processor.py\<close>
  returns 0: it removes the three characters U+00E2 U+201A U+00B9, not the rupee sign, and
  \<open>float\<close> then fails. \<open>parse_amount\<close> of \<open>app.py\<close> returns 500.
\<close>

theorem fp_parse_amount_rupee:
  "fp_parse_amount (PyStr rupee_500) = 0 \<and> parse_amount (PyStr rupee_500) = 500"
  by (simp add: parse_amount_def fp_parse_amount_def rupee_500_def ascii_def startswith_def
      comma_def rupee_def dollar_def euro_def mojibake_rupee_def strip_def isspace_def
      py_float_def split_sign_def isdigit_def float_exponent_def digits_value_def scale10_def)

lemma filter_absent: "c \<notin> set s \<Longrightarrow> filter (\<lambda>x. x \<noteq> c) (filter P s) = filter P s"
  by (induction s) auto

lemma plain_parse_amount: "plain_value v \<Longrightarrow> fp_parse_amount v = parse_amount v"
proof (cases v)
  case (PyStr s)
  assume "plain_value v"
  with PyStr have r: "rupee \<notin> set s" and e: "euro \<notin> set s"
    and m: "\<not> contains (replace s [comma] []) mojibake_rupee"
    by (simp_all add: plain_value_def)
  have e0: "py_float [] = None"
    by (simp add: py_float_def strip_def split_sign_def)
  have "filter (\<lambda>x. x \<noteq> rupee) (filter (\<lambda>x. x \<noteq> comma) s) = filter (\<lambda>x. x \<noteq> comma) s"
    using r by (rule filter_absent)
  moreover have "filter (\<lambda>x. x \<noteq> euro) (filter (\<lambda>x. x \<noteq> dollar) (filter (\<lambda>x. x \<noteq> comma) s))
      = filter (\<lambda>x. x \<noteq> dollar) (filter (\<lambda>x. x \<noteq> comma) s)"
    using e filter_absent [of euro s "\<lambda>x. x \<noteq> dollar \<and> x \<noteq> comma"]
    by (simp add: conj_commute)
  ultimately have app: "replace (replace (replace (replace s [comma] []) [rupee] []) [dollar] []) [euro] []
      = filter (\<lambda>x. x \<noteq> dollar) (filter (\<lambda>x. x \<noteq> comma) s)"
    by (simp only: replace_char)
  have fp: "replace (replace (replace s [comma] []) mojibake_rupee []) [dollar] []
      = filter (\<lambda>x. x \<noteq> dollar) (filter (\<lambda>x. x \<noteq> comma) s)"
    using replace_absent [OF m] by (simp add: replace_char)
  show ?thesis
    unfolding PyStr parse_amount_def fp_parse_amount_def pyvalue.case app fp
    by (cases "s = []") (simp_all add: Let_def e0 strip_def)
qed (simp_all add: parse_amount_def fp_parse_amount_def)

lemma amount_loop_cong:
  "\<forall>(k, v) \<in> set row. p v = q v \<Longrightarrow> amount_loop p row = amount_loop q row"
  by (induction row) (auto simp: Let_def)

lemma find_description_present:
  "has_description_field row \<Longrightarrow> find_description frepr row d = find_description frepr row d'"
  unfolding has_description_field_def find_description_def next_or_def
  by (induction row) (auto split: list.splits)

lemma find_description_absent:
  "\<not> has_description_field row \<Longrightarrow> find_description frepr row d = d"
  unfolding has_description_field_def find_description_def next_or_def
  by (induction row) (auto split: list.splits)

lemma placeholders_uncategorized:
  "categorize_transaction (ascii ''Unknown Transaction'') = ascii ''uncategorized''"
  "categorize_transaction (ascii ''Unknown'') = ascii ''uncategorized''"
  by code_simp+

lemma fp_categorize_same: "fp_categorize_transaction d = categorize_transaction d"
  by (simp add: fp_categorize_transaction_def categorize_transaction_def chart_of_accounts_same)

lemma amount_row_extracted:
  "extract_transaction frepr amount_row =
     Some \<lparr>date = [], description = ascii ''Unknown Transaction'', amount = 5,
           category = ascii ''uncategorized'', type = ascii ''income''\<rparr>"
  "fp_extract_transaction frepr amount_row =
     Some \<lparr>date = [], description = ascii ''Unknown'', amount = 5,
           category = ascii ''uncategorized'', type = ascii ''income''\<rparr>"
proof -
  have f: "amount_field (Some (ascii ''Amount'')) (PyInt 5)" by code_simp
  have g: "any_in amount_terms (lower (key_str (Some (ascii ''Amount''))))" by code_simp
  have a: "amount_loop parse amount_row = parse (PyInt 5)" for parse
    unfolding amount_row_def using amount_loop_hit [OF f, of parse "[]"] g
    by (simp add: resolved_amount_def del: amount_loop.simps)
  have n: "\<not> has_description_field amount_row" by code_simp
  have t: "find_description frepr amount_row d = d" for d
    using n by (rule find_description_absent)
  have dt: "find_date frepr amount_row = []" by code_simp
  show "extract_transaction frepr amount_row =
     Some \<lparr>date = [], description = ascii ''Unknown Transaction'', amount = 5,
           category = ascii ''uncategorized'', type = ascii ''income''\<rparr>"
    by (simp add: extract_transaction_def a t dt parse_amount_def placeholders_uncategorized)
  show "fp_extract_transaction frepr amount_row =
     Some \<lparr>date = [], description = ascii ''Unknown'', amount = 5,
           category = ascii ''uncategorized'', type = ascii ''income''\<rparr>"
    by (simp add: fp_extract_transaction_def a t dt fp_parse_amount_def fp_categorize_same
        placeholders_uncategorized)
qed

lemma placeholders_differ: "ascii ''Unknown Transaction'' \<noteq> ascii ''Unknown''"
  by (simp add: ascii_def)

section \<open>The batch of files\<close>

lemma files_loop_step:
  "files_loop frepr read_csv read_excel (file # files) (txs, sts) =
     files_loop frepr read_csv read_excel files
       (txs @ outcome_transactions (file_outcome frepr read_csv read_excel file),
        sts @ outcome_status (file_outcome frepr read_csv read_excel file))"
  by (simp add: file_outcome_def process_csv_def process_excel_def process_rows_def
      split: option.splits sum.splits)

lemma files_loop_batch:
  "files_loop frepr read_csv read_excel files (txs, sts) =
     (txs @ batch_transactions frepr read_csv read_excel files,
      sts @ batch_status frepr read_csv read_excel files)"
proof (induction files arbitrary: txs sts)
  case Nil
  then show ?case by (simp add: batch_transactions_def batch_status_def)
next
  case (Cons f files)
  show ?case
    unfolding files_loop_step Cons.IH
    by (simp add: batch_transactions_def batch_status_def)
qed

text \<open>
  C6. Each file contributes its own transactions and its own status entry, whatever the
  other files do: a failure is recorded with the file name and the error text. The batch
  raises the HTTP error exactly when no transaction was extracted from any file; otherwise
  the response carries the status list and all the transactions.
\<close>

theorem batch_failures_recorded:
  "files_loop frepr read_csv read_excel files ([], []) =
     (batch_transactions frepr read_csv read_excel files, batch_status frepr read_csv read_excel files)
   \<and> (isl (process_files frepr read_csv read_excel files)
        \<longleftrightarrow> batch_transactions frepr read_csv read_excel files = [])
   \<and> (batch_transactions frepr read_csv read_excel files = [] \<longrightarrow>
        process_files frepr read_csv read_excel files
          = Inl (HTTPException 400 (ascii ''No valid transactions found in any file'')))
   \<and> (batch_transactions frepr read_csv read_excel files \<noteq> [] \<longrightarrow>
        processed_files (projr (process_files frepr read_csv read_excel files))
          = batch_status frepr read_csv read_excel files
        \<and> transactions (reports_of (projr (process_files frepr read_csv read_excel files)))
          = batch_transactions frepr read_csv read_excel files)"
  by (simp add: process_files_def files_loop_batch Let_def generate_reports_def split_beta)

lemma example_names:
  "endswith (lower (ascii ''Statement.CSV'')) (ascii ''.csv'')"
  "\<not> endswith (lower (ascii ''broken.xlsx'')) (ascii ''.csv'')"
  "endswith (lower (ascii ''broken.xlsx'')) (ascii ''.xlsx'')"
  "\<not> endswith (lower (ascii ''notes.txt'')) (ascii ''.csv'')"
  "\<not> endswith (lower (ascii ''notes.txt'')) (ascii ''.xlsx'')"
  "\<not> endswith (lower (ascii ''notes.txt'')) (ascii ''.xls'')"
  "ascii ''Statement.CSV'' \<noteq> []" "ascii ''broken.xlsx'' \<noteq> []" "ascii ''notes.txt'' \<noteq> []"
  by code_simp+

lemma example_outcomes:
  "file_outcome frepr as_decoded as_decoded good_csv = Succeeded (ascii ''Statement.CSV'') [salary_tx, rent_tx]"
  "file_outcome frepr as_decoded as_decoded bad_xlsx
     = Failed (ascii ''broken.xlsx'') (ascii ''File is not a zip file'')"
  "file_outcome frepr as_decoded as_decoded notes_txt
     = Failed (ascii ''notes.txt'') (ascii ''Unsupported file format'')"
proof -
  have r: "extract_transaction frepr salary_row = None"
    by (simp add: extract_transaction_def end_to_end_amounts)
  have "List.map_filter (extract_transaction frepr) [salary_row_credit_first, salary_row, rent_row_debit_first]
      = [salary_tx, rent_tx]"
    using reordered_rows_accepted [of frepr] r
    by (simp add: process_rows_def split: option.splits)
  then show "file_outcome frepr as_decoded as_decoded good_csv = Succeeded (ascii ''Statement.CSV'') [salary_tx, rent_tx]"
    by (simp add: file_outcome_def good_csv_def example_names as_decoded_def)
  show "file_outcome frepr as_decoded as_decoded bad_xlsx
     = Failed (ascii ''broken.xlsx'') (ascii ''File is not a zip file'')"
    by (simp add: file_outcome_def bad_xlsx_def example_names as_decoded_def)
  show "file_outcome frepr as_decoded as_decoded notes_txt
     = Failed (ascii ''notes.txt'') (ascii ''Unsupported file format'')"
    by (simp add: file_outcome_def notes_txt_def example_names as_decoded_def)
qed

theorem batch_failures_recorded_witness:
  "batch_transactions frepr0 as_decoded as_decoded [bad_xlsx, good_csv, notes_txt] = [salary_tx, rent_tx]
   \<and> \<not> isl (process_files frepr0 as_decoded as_decoded [bad_xlsx, good_csv, notes_txt])
   \<and> processed_files (projr (process_files frepr0 as_decoded as_decoded [bad_xlsx, good_csv, notes_txt]))
       = [StatusError (ascii ''broken.xlsx'') (ascii ''File is not a zip file''),
          StatusSuccess (ascii ''Statement.CSV'') 2,
          StatusError (ascii ''notes.txt'') (ascii ''Unsupported file format'')]
   \<and> batch_transactions frepr0 as_decoded as_decoded [bad_xlsx, notes_txt] = []
   \<and> process_files frepr0 as_decoded as_decoded [bad_xlsx, notes_txt]
       = Inl (HTTPException 400 (ascii ''No valid transactions found in any file''))"
proof -
  have t: "batch_transactions frepr0 as_decoded as_decoded [bad_xlsx, good_csv, notes_txt]
      = [salary_tx, rent_tx]"
    "batch_transactions frepr0 as_decoded as_decoded [bad_xlsx, notes_txt] = []"
    by (simp_all add: batch_transactions_def example_outcomes)
  have s: "batch_status frepr0 as_decoded as_decoded [bad_xlsx, good_csv, notes_txt]
       = [StatusError (ascii ''broken.xlsx'') (ascii ''File is not a zip file''),
          StatusSuccess (ascii ''Statement.CSV'') 2,
          StatusError (ascii ''notes.txt'') (ascii ''Unsupported file format'')]"
    by (simp add: batch_status_def example_outcomes)
  show ?thesis
    using batch_failures_recorded [of frepr0 as_decoded as_decoded "[bad_xlsx, good_csv, notes_txt]"]
      batch_failures_recorded [of frepr0 as_decoded as_decoded "[bad_xlsx, notes_txt]"]
    by (simp add: t s)
qed

section \<open>The groups of a match\<close>

text \<open>
  A match carries one captured text for each group of the pattern: four for the first
  pattern of the line parser and three for the second, so the line parser always finds
  the three groups it reads.
\<close>

lemma rx_match_groups:
  "(caps, rest) \<in> set (rx_match p s) \<Longrightarrow> length caps = group_count p"
proof (induction p s arbitrary: caps rest rule: rx_match.induct)
  case (1 s)
  then show ?case by simp
next
  case (2 P lo hi greedy rs s)
  then show ?case by auto
next
  case (3 body rs s)
  from "3.prems" obtain caps1 rest1 caps2 rest2
    where b: "(caps1, rest1) \<in> set (rx_match body s)"
      and r: "(caps2, rest2) \<in> set (rx_match rs rest1)"
      and c: "caps = take (length s - length rest1) s # caps1 @ caps2"
    by auto
  from "3.IH"(1) [OF b] "3.IH"(2) [OF b refl r] c show ?case by simp
qed

lemma rx_match_first_groups:
  "rx_match p s = (caps, rest) # others \<Longrightarrow> length caps = group_count p"
  using rx_match_groups [of caps rest p s] by simp

lemma rx_search_groups: "rx_search p s = Some caps \<Longrightarrow> length caps = group_count p"
proof (induction s)
  case Nil
  then show ?case
    by (cases "rx_match p []") (auto dest: rx_match_first_groups)
next
  case (Cons c cs)
  then show ?case
    by (cases "rx_match p (c # cs)") (auto dest: rx_match_first_groups)
qed

lemma pattern_groups: "group_count pattern_a = 4" "group_count pattern_b = 3"
  by (simp_all add: pattern_a_def pattern_b_def chr_def)

section \<open>The two implementations on cells that may be NaN\<close>

lemma amount_cell_truthy: "amount_cell key value \<Longrightarrow> truthy key"
  using none_name_no_term empty_name_no_term not_truthy_cases [of key]
  by (auto simp: amount_cell_def)

lemma amount_loop_cell_find:
  "amount_loop_cell parse row =
     (case deciding_field row of
        None \<Rightarrow> Finite 0
      | Some (key, value) \<Rightarrow>
          if any_in amount_terms (lower (key_str key)) then parse value
          else if any_in debit_terms (lower (key_str key)) then float_neg (float_abs (parse value))
          else float_abs (parse value))"
proof (induction row)
  case Nil
  then show ?case by (simp add: deciding_field_def)
next
  case (Cons a row)
  obtain key "value" where a: "a = (key, value)" by (cases a)
  show ?case
  proof (cases "amount_cell key value")
    case True
    then show ?thesis
      using amount_cell_truthy [OF True]
      by (auto simp: a deciding_field_def amount_cell_def Let_def)
  next
    case False
    then have "amount_loop_cell parse (a # row) = amount_loop_cell parse row"
      by (auto simp: a amount_cell_def Let_def)
    with False Cons.IH show ?thesis by (simp add: a deciding_field_def)
  qed
qed

lemma plain_parse_amount_cell: "plain_cell c \<Longrightarrow> fp_parse_amount_cell c = parse_amount_cell c"
  by (cases c) (simp_all add: plain_cell_def plain_parse_amount)

lemma amount_loop_cell_plain:
  "plain_deciding_field row \<Longrightarrow> amount_loop_cell fp_parse_amount_cell row = amount_loop_cell parse_amount_cell row"
  unfolding amount_loop_cell_find plain_deciding_field_def
  by (auto split: option.splits simp: plain_parse_amount_cell)

lemma find_description_cell_present:
  "has_description_cell row \<Longrightarrow> find_description_cell frepr row d = find_description_cell frepr row d'"
  unfolding has_description_cell_def find_description_cell_def next_or_def
  by (induction row) (auto split: list.splits)

lemma find_description_cell_absent:
  "\<not> has_description_cell row \<Longrightarrow> find_description_cell frepr row d = d"
  unfolding has_description_cell_def find_description_cell_def next_or_def
  by (induction row) (auto split: list.splits)

text \<open>
  C5, amended. The two categorizers are equal; the two \<open>parse_amount\<close> are equal on plain
  cells; on a record whose deciding field holds a plain cell (or that has no deciding
  field) the two extractors agree on whether there is a transaction and on its date,
  amount, category and type, and on its description when the record has a description
  field. Without one the description is \<open>Unknown Transaction\<close> in \<open>app.py\<close> and \<open>Unknown\<close>
  in \<open>processor.py\<close>.
\<close>

theorem implementations_agree:
  "fp_categorize_transaction d = categorize_transaction d
   \<and> (plain_cell c \<longrightarrow> fp_parse_amount_cell c = parse_amount_cell c)
   \<and> (plain_deciding_field row \<longrightarrow>
        fp_extract_transaction_cell frepr row =
          map_option (\<lambda>t. if has_description_cell row then t
                          else t\<lparr>f_description := ascii ''Unknown''\<rparr>)
            (extract_transaction_cell frepr row))"
proof (intro conjI impI)
  show "fp_categorize_transaction d = categorize_transaction d" by (rule fp_categorize_same)
  show "fp_parse_amount_cell c = parse_amount_cell c" if "plain_cell c"
    using that by (rule plain_parse_amount_cell)
  assume "plain_deciding_field row"
  then have a: "amount_loop_cell fp_parse_amount_cell row = amount_loop_cell parse_amount_cell row"
    by (rule amount_loop_cell_plain)
  show "fp_extract_transaction_cell frepr row =
          map_option (\<lambda>t. if has_description_cell row then t
                          else t\<lparr>f_description := ascii ''Unknown''\<rparr>)
            (extract_transaction_cell frepr row)"
  proof (cases "has_description_cell row")
    case True
    then show ?thesis
      using find_description_cell_present [OF True, of frepr "ascii ''Unknown''" "ascii ''Unknown Transaction''"]
      by (simp add: fp_extract_transaction_cell_def extract_transaction_cell_def a Let_def
          fp_categorize_same)
  next
    case False
    then show ?thesis
      by (simp add: fp_extract_transaction_cell_def extract_transaction_cell_def a Let_def
          fp_categorize_same find_description_cell_absent placeholders_uncategorized)
  qed
qed

lemma amount_loop_of_row:
  "amount_loop_cell parse_amount_cell (of_row row) = Finite (amount_loop parse_amount row)"
  "amount_loop_cell fp_parse_amount_cell (of_row row) = Finite (amount_loop fp_parse_amount row)"
  by (induction row) (auto simp: of_row_def Let_def)

lemma find_texts_of_row:
  "find_description_cell frepr (of_row row) d = find_description frepr row d"
  "find_date_cell frepr (of_row row) = find_date frepr row"
  unfolding find_description_cell_def find_description_def find_date_cell_def find_date_def
    next_or_def of_row_def
  by (induction row; auto split: list.splits)+

lemma extract_of_row:
  "extract_transaction_cell frepr (of_row row) = map_option of_transaction (extract_transaction frepr row)"
  "fp_extract_transaction_cell frepr (of_row row)
     = map_option of_transaction (fp_extract_transaction frepr row)"
  by (simp_all add: extract_transaction_cell_def extract_transaction_def
      fp_extract_transaction_cell_def fp_extract_transaction_def amount_loop_of_row
      find_texts_of_row of_transaction_def Let_def)

lemma empty_amount_row_extracted:
  "extract_transaction_cell frepr empty_amount_row =
     Some \<lparr>f_date = [], f_description = ascii ''Unknown Transaction'', f_amount = NaN,
           f_category = ascii ''uncategorized'', f_type = ascii ''expense''\<rparr>"
  "fp_extract_transaction_cell frepr empty_amount_row = None"
proof -
  have g: "any_in amount_terms (lower (key_str (Some (ascii ''Amount''))))" by code_simp
  have t: "truthy (Some (ascii ''Amount''))" by code_simp
  have n: "\<not> has_description_cell empty_amount_row" by code_simp
  have dt: "find_date_cell frepr empty_amount_row = []" by code_simp
  have a: "amount_loop_cell parse empty_amount_row = parse NaNCell" for parse
    using g t by (simp add: empty_amount_row_def)
  show "extract_transaction_cell frepr empty_amount_row =
     Some \<lparr>f_date = [], f_description = ascii ''Unknown Transaction'', f_amount = NaN,
           f_category = ascii ''uncategorized'', f_type = ascii ''expense''\<rparr>"
    by (simp add: extract_transaction_cell_def a dt find_description_cell_absent [OF n]
        placeholders_uncategorized)
  show "fp_extract_transaction_cell frepr empty_amount_row = None"
    by (simp add: fp_extract_transaction_cell_def a)
qed

text \<open>
  C5, as stated, fails: without a description field the two extractors give different
  placeholder descriptions; the two \<open>parse_amount\<close> differ on a text with a rupee sign, with
  a euro sign or with the three characters that \<open>processor.py\<close> removes, and on NaN; and on a record whose amount cell is empty \<open>app.py\<close> gives a transaction with the
  amount NaN where \<open>processor.py\<close> gives none.
\<close>

theorem implementations_differ:
  "fp_extract_transaction frepr0 amount_row \<noteq> extract_transaction frepr0 amount_row
   \<and> fp_parse_amount (PyStr rupee_500) \<noteq> parse_amount (PyStr rupee_500)
   \<and> fp_parse_amount (PyStr (euro # ascii ''5'')) \<noteq> parse_amount (PyStr (euro # ascii ''5''))
   \<and> fp_parse_amount (PyStr (mojibake_rupee @ ascii ''5''))
       \<noteq> parse_amount (PyStr (mojibake_rupee @ ascii ''5''))
   \<and> fp_parse_amount_cell NaNCell \<noteq> parse_amount_cell NaNCell
   \<and> fp_extract_transaction_cell frepr0 empty_amount_row
       \<noteq> extract_transaction_cell frepr0 empty_amount_row"
proof -
  have "fp_parse_amount (PyStr rupee_500) = 0" "parse_amount (PyStr rupee_500) = 500"
    "fp_parse_amount (PyStr (euro # ascii ''5'')) = 0" "parse_amount (PyStr (euro # ascii ''5'')) = 5"
    "fp_parse_amount (PyStr (mojibake_rupee @ ascii ''5'')) = 5"
    "parse_amount (PyStr (mojibake_rupee @ ascii ''5'')) = 0"
    by (simp_all add: parse_amount_def fp_parse_amount_def rupee_500_def ascii_def startswith_def
      comma_def rupee_def dollar_def euro_def mojibake_rupee_def strip_def isspace_def
      py_float_def split_sign_def isdigit_def float_exponent_def digits_value_def scale10_def)
  then show ?thesis
    using placeholders_differ by (simp add: amount_row_extracted empty_amount_row_extracted)
qed

lemma dollar_text:
  "plain_value (PyStr (ascii ''$1,234.50''))"
  "parse_amount (PyStr (ascii ''$1,234.50'')) = 1234.5"
  "fp_parse_amount (PyStr (ascii ''$1,234.50'')) = 1234.5"
  by (simp_all add: plain_value_def parse_amount_def fp_parse_amount_def ascii_def startswith_def
      comma_def rupee_def dollar_def euro_def mojibake_rupee_def strip_def isspace_def
      py_float_def split_sign_def isdigit_def float_exponent_def digits_value_def scale10_def)

lemma example_deciding_fields:
  "deciding_field grocery_row = Some (Some (ascii ''Amount''), Cell (PyStr (ascii ''$1,234.50'')))"
  "deciding_field dollar_row = Some (Some (ascii ''Amount''), Cell (PyStr (ascii ''$1,234.50'')))"
proof -
  have k: "\<not> any_in amount_terms (lower (key_str (Some (ascii ''Narration''))))"
    "\<not> any_in debit_terms (lower (key_str (Some (ascii ''Narration''))))"
    "\<not> any_in credit_terms (lower (key_str (Some (ascii ''Narration''))))"
    "\<not> any_in amount_terms (lower (key_str (Some (ascii ''Date''))))"
    "\<not> any_in debit_terms (lower (key_str (Some (ascii ''Date''))))"
    "\<not> any_in credit_terms (lower (key_str (Some (ascii ''Date''))))"
    "any_in amount_terms (lower (key_str (Some (ascii ''Amount''))))"
    by code_simp+
  show "deciding_field grocery_row = Some (Some (ascii ''Amount''), Cell (PyStr (ascii ''$1,234.50'')))"
    "deciding_field dollar_row = Some (Some (ascii ''Amount''), Cell (PyStr (ascii ''$1,234.50'')))"
    using k by (simp_all add: deciding_field_def grocery_row_def dollar_row_def amount_cell_def)
qed

lemma example_texts:
  "has_description_cell grocery_row" "\<not> has_description_cell dollar_row"
  "find_description_cell frepr grocery_row d = ascii ''Grocery store''"
  "find_date_cell frepr grocery_row = ascii ''nan''"
  "find_date_cell frepr dollar_row = []"
  "categorize_transaction (ascii ''Grocery store'') = ascii ''expenses_food''"
  by code_simp+

lemma example_cell_amounts:
  "amount_loop_cell parse_amount_cell grocery_row = Finite 1234.5"
  "amount_loop_cell parse_amount_cell dollar_row = Finite 1234.5"
proof -
  have g: "any_in amount_terms (lower (key_str (Some (ascii ''Amount''))))" by code_simp
  show "amount_loop_cell parse_amount_cell grocery_row = Finite 1234.5"
    "amount_loop_cell parse_amount_cell dollar_row = Finite 1234.5"
    unfolding amount_loop_cell_find example_deciding_fields using g by (simp_all add: dollar_text)
qed

lemma example_cells_extracted:
  "extract_transaction_cell frepr grocery_row =
     Some \<lparr>f_date = ascii ''nan'', f_description = ascii ''Grocery store'', f_amount = Finite 1234.5,
           f_category = ascii ''expenses_food'', f_type = ascii ''income''\<rparr>"
  "extract_transaction_cell frepr dollar_row =
     Some \<lparr>f_date = [], f_description = ascii ''Unknown Transaction'', f_amount = Finite 1234.5,
           f_category = ascii ''uncategorized'', f_type = ascii ''income''\<rparr>"
  by (simp_all add: extract_transaction_cell_def example_cell_amounts example_texts
      find_description_cell_absent placeholders_uncategorized)

theorem implementations_agree_witness:
  "plain_cell (Cell (PyStr (ascii ''$1,234.50'')))
   \<and> plain_deciding_field grocery_row \<and> plain_deciding_field dollar_row
   \<and> fp_parse_amount_cell (Cell (PyStr (ascii ''$1,234.50''))) = Finite 1234.5
   \<and> parse_amount_cell (Cell (PyStr (ascii ''$1,234.50''))) = Finite 1234.5
   \<and> fp_extract_transaction_cell frepr0 grocery_row =
       Some \<lparr>f_date = ascii ''nan'', f_description = ascii ''Grocery store'', f_amount = Finite 1234.5,
             f_category = ascii ''expenses_food'', f_type = ascii ''income''\<rparr>
   \<and> fp_extract_transaction_cell frepr0 dollar_row =
       Some \<lparr>f_date = [], f_description = ascii ''Unknown'', f_amount = Finite 1234.5,
             f_category = ascii ''uncategorized'', f_type = ascii ''income''\<rparr>"
proof -
  have p: "plain_cell (Cell (PyStr (ascii ''$1,234.50'')))"
    by (simp add: plain_cell_def dollar_text)
  have q: "plain_deciding_field grocery_row" "plain_deciding_field dollar_row"
    by (simp_all add: plain_deciding_field_def example_deciding_fields p)
  from implementations_agree [of "ascii ''Tea''" "Cell (PyStr (ascii ''$1,234.50''))" grocery_row frepr0]
    implementations_agree [of "ascii ''Tea''" "Cell (PyStr (ascii ''$1,234.50''))" dollar_row frepr0]
  show ?thesis
    using p q by (simp add: example_cells_extracted example_texts dollar_text)
qed

section \<open>The reports in floating-point arithmetic\<close>

lemma round_even_int: "round_even (of_int k) = k"
  by (simp add: round_even_def)

lemma round_even_Ints: "m \<in> \<int> \<Longrightarrow> of_int (round_even m) = m"
  by (auto simp: Ints_def round_even_int)

lemma scale2_eq: "scale2 x e = x * 2 powr (real_of_int e)"
proof (cases "0 \<le> e")
  case True
  then have "2 powr (real_of_int e) = (2::real) ^ nat e"
    by (simp add: powr_realpow [symmetric])
  with True show ?thesis by (simp add: scale2_def)
next
  case False
  then have "2 powr (real_of_int e) = 1 / (2::real) ^ nat (- e)"
    using powr_minus_divide [of 2 "real_of_int (- e)"] by (simp add: powr_realpow [symmetric])
  with False show ?thesis by (simp add: scale2_def)
qed

lemma mant_exp_grid:
  assumes "m * 2 ^ r \<in> \<int>" "m \<noteq> 0" "\<bar>m\<bar> * 2 ^ r < 2 ^ 53" "2 ^ 52 \<le> \<bar>m\<bar> * 2 ^ n"
  shows "\<exists>m' e'. mant_exp n m e = (m', e') \<and> m' \<in> \<int> \<and> scale2 m' e' = scale2 m e"
  using assms
proof (induction n arbitrary: m e r)
  case 0
  then have big: "2 ^ 52 \<le> \<bar>m\<bar>" by simp
  have "r = 0"
  proof (rule ccontr)
    assume "r \<noteq> 0"
    then have "(2::real) \<le> 2 ^ r" using self_le_power [of "2::real" r] by simp
    then have "\<bar>m\<bar> * 2 \<le> \<bar>m\<bar> * 2 ^ r" by (simp add: mult_left_mono)
    with big "0.prems"(3) show False by simp
  qed
  with "0.prems"(1) show ?case by simp
next
  case (Suc n)
  have lt: "\<bar>m\<bar> < 2 ^ 53"
  proof -
    have "(1::real) \<le> 2 ^ r" by simp
    then have "\<bar>m\<bar> * 1 \<le> \<bar>m\<bar> * 2 ^ r" by (intro mult_left_mono) auto
    with Suc.prems(3) show ?thesis by simp
  qed
  show ?case
  proof (cases "\<bar>m\<bar> < 2 ^ 52")
    case False
    then have big: "2 ^ 52 \<le> \<bar>m\<bar>" by simp
    have "r = 0"
    proof (rule ccontr)
      assume "r \<noteq> 0"
      then have "(2::real) \<le> 2 ^ r" using self_le_power [of "2::real" r] by simp
      then have "\<bar>m\<bar> * 2 \<le> \<bar>m\<bar> * 2 ^ r" by (simp add: mult_left_mono)
      with big Suc.prems(3) show False by simp
    qed
    with Suc.prems(1) lt False show ?thesis by simp
  next
    case True
    define r' where "r' = r - 1"
    have g: "(m * 2) * 2 ^ r' \<in> \<int>"
    proof (cases r)
      case 0
      with Suc.prems(1) have "m \<in> \<int>" by simp
      then have "m * 2 \<in> \<int>" by (metis Ints_mult Ints_numeral)
      with 0 show ?thesis by (simp add: r'_def)
    next
      case (Suc k)
      with Suc.prems(1) show ?thesis by (simp add: r'_def mult.assoc)
    qed
    have b: "\<bar>m * 2\<bar> * 2 ^ r' < 2 ^ 53"
    proof (cases r)
      case 0
      with True show ?thesis by (simp add: r'_def)
    next
      case (Suc k)
      with Suc.prems(3) show ?thesis by (simp add: r'_def mult.assoc)
    qed
    have n: "2 ^ 52 \<le> \<bar>m * 2\<bar> * 2 ^ n" using Suc.prems(4) by (simp add: mult.assoc)
    from Suc.IH [OF g _ b n, of "e - 1"] Suc.prems(2)
    obtain m' e' where r: "mant_exp n (m * 2) (e - 1) = (m', e')" "m' \<in> \<int>"
      "scale2 m' e' = scale2 (m * 2) (e - 1)" by auto
    have "scale2 (m * 2) (e - 1) = scale2 m e"
      by (simp add: scale2_eq powr_diff)
    with r lt True show ?thesis by simp
  qed
qed

lemma mant_exp_zero: "mant_exp n 0 e = (0, e - int n)"
  by (induction n arbitrary: e) auto

lemma scale2_zero: "scale2 0 e = 0"
  by (simp add: scale2_def)

lemma binary64_zero: "binary64 0 = 0"
  by (simp add: binary64_def mant_exp_zero round_even_def scale2_zero)

lemma binary64_grid:
  assumes "on_grid q x" "\<bar>x\<bar> * 2 ^ q < 2 ^ 53" "q \<le> 1074"
  shows "binary64 x = x"
proof (cases "x = 0")
  case True
  then show ?thesis by (simp only: binary64_zero)
next
  case False
  have g: "x * 2 ^ q \<in> \<int>" using assms(1) by (simp add: on_grid_def)
  then obtain k where k: "x * 2 ^ q = of_int k" by (auto simp: Ints_def)
  with False have "k \<noteq> 0" by auto
  then have "1 \<le> \<bar>real_of_int k\<bar>" by linarith
  then have one: "1 \<le> \<bar>x\<bar> * 2 ^ q" by (simp add: abs_mult flip: k)
  have "52 + q \<le> fuel" using assms(3) by (simp add: fuel_def)
  then have "(2::real) ^ (52 + q) \<le> 2 ^ fuel" by (intro power_increasing) auto
  then have "\<bar>x\<bar> * 2 ^ (52 + q) \<le> \<bar>x\<bar> * 2 ^ fuel" by (intro mult_left_mono) auto
  moreover have "(2::real) ^ 52 * 1 \<le> 2 ^ 52 * (\<bar>x\<bar> * 2 ^ q)"
    using one by (intro mult_left_mono) auto
  then have "(2::real) ^ 52 \<le> \<bar>x\<bar> * 2 ^ (52 + q)" by (simp only: power_add mult_1_right mult_ac)
  ultimately have enough: "2 ^ 52 \<le> \<bar>x\<bar> * 2 ^ fuel" by (rule order_trans [rotated])
  from mant_exp_grid [OF g False assms(2) enough, of 0]
  obtain m' e' where n: "mant_exp fuel x 0 = (m', e')" and i: "m' \<in> \<int>"
    and s: "scale2 m' e' = scale2 x 0"
    by auto
  have "binary64 x = scale2 (of_int (round_even m')) e'"
    by (simp only: binary64_def n Let_def prod.case)
  also have "\<dots> = scale2 x 0" by (simp only: round_even_Ints [OF i] s)
  also have "\<dots> = x" by (simp add: scale2_def)
  finally show ?thesis .
qed

lemma breakdown_loop_rounded_id: "breakdown_loop_rounded (\<lambda>x. x) txs acc = breakdown_loop txs acc"
  by (induction txs acc rule: breakdown_loop.induct) auto

lemma generate_reports_rounded_id: "generate_reports_rounded (\<lambda>x. x) txs = generate_reports txs"
  by (simp add: generate_reports_rounded_def generate_reports_def breakdown_loop_rounded_id
      dict_values_sum_rounded_def dict_values_sum_def)

lemma mant_exp_numeral:
  "mant_exp (numeral k) m e =
     (if 2 ^ 53 \<le> \<bar>m\<bar> then mant_exp (pred_numeral k) (m / 2) (e + 1)
      else if \<bar>m\<bar> < 2 ^ 52 then mant_exp (pred_numeral k) (m * 2) (e - 1)
      else (m, e))"
  by (simp add: numeral_eq_Suc)

lemma binary64_values:
  "binary64 0.1 = 3602879701896397 / 2 ^ 55"
  "binary64 1 = 1" "binary64 2 = 2" "binary64 3 = 3"
  "binary64 (3602879701896397 / 2 ^ 55) = 3602879701896397 / 2 ^ 55"
  "binary64 (2 * (3602879701896397 / 2 ^ 55)) = 3602879701896397 / 2 ^ 54"
  "binary64 (3 * (3602879701896397 / 2 ^ 55)) = 1351079888211149 / 2 ^ 52"
  "binary64 (1 + 3602879701896397 / 2 ^ 55) = 2476979795053773 / 2 ^ 51"
  "binary64 (2 + 3602879701896397 / 2 ^ 54) = 2476979795053773 / 2 ^ 50"
  "binary64 (3 + 1351079888211149 / 2 ^ 52) = 3715469692580659 / 2 ^ 50"
  "binary64 (2476979795053773 / 2 ^ 51) = 2476979795053773 / 2 ^ 51"
  "binary64 (2476979795053773 / 2 ^ 50) = 2476979795053773 / 2 ^ 50"
  "binary64 (3715469692580659 / 2 ^ 50) = 3715469692580659 / 2 ^ 50"
  "binary64 (2476979795053773 / 2 ^ 51 + 2476979795053773 / 2 ^ 50) = 7430939385161319 / 2 ^ 51"
  by (simp_all add: binary64_def fuel_def mant_exp_numeral round_even_def scale2_def Let_def)

lemma rounded_loops:
  "breakdown_loop_rounded binary64 [one_tx, two_tx] ([], []) = ([(ascii ''income_salary'', 3)], [])"
  "breakdown_loop_rounded binary64 [one_tx] ([], []) = ([(ascii ''income_salary'', 1)], [])"
  "breakdown_loop_rounded binary64 [two_tx] ([], []) = ([(ascii ''income_salary'', 2)], [])"
  by (simp_all add: one_tx_def two_tx_def binary64_values)

lemma rounded_sums:
  "dict_values_sum_rounded binary64 [(k, 3)] = 3"
  "dict_values_sum_rounded binary64 [(k, 1)] = 1"
  "dict_values_sum_rounded binary64 [(k, 2)] = 2"
  "dict_values_sum_rounded binary64 [] = 0"
  by (simp_all add: dict_values_sum_rounded_def binary64_values)

lemma rounded_examples:
  "net_cash_flow (cash_flow (generate_reports_rounded binary64 ([one_tx] @ [two_tx])))
     = 3715469692580659 / 2 ^ 50"
  "net_cash_flow (cash_flow (generate_reports_rounded binary64 [one_tx])) = 2476979795053773 / 2 ^ 51"
  "net_cash_flow (cash_flow (generate_reports_rounded binary64 [two_tx])) = 2476979795053773 / 2 ^ 50"
  by (simp_all add: generate_reports_rounded_def rounded_loops rounded_sums Let_def binary64_zero
      del: breakdown_loop_rounded.simps)
    (simp_all add: binary64_def fuel_def mant_exp_numeral round_even_def scale2_def Let_def)

text \<open>
  C9, as stated, fails: for an income of 1 and an income of 2 the net cash flow of the
  concatenation is 3.3 and the float sum of the net cash flows of the parts is
  3.3000000000000003, the next float.
\<close>

theorem additivity_fails_in_binary64:
  "net_cash_flow (cash_flow (generate_reports_rounded binary64 ([one_tx] @ [two_tx])))
     = 3715469692580659 / 2 ^ 50
   \<and> binary64 (net_cash_flow (cash_flow (generate_reports_rounded binary64 [one_tx]))
        + net_cash_flow (cash_flow (generate_reports_rounded binary64 [two_tx])))
     = 7430939385161319 / 2 ^ 51
   \<and> net_cash_flow (cash_flow (generate_reports_rounded binary64 ([one_tx] @ [two_tx])))
     \<noteq> binary64 (net_cash_flow (cash_flow (generate_reports_rounded binary64 [one_tx]))
        + net_cash_flow (cash_flow (generate_reports_rounded binary64 [two_tx])))"
  unfolding rounded_examples binary64_values by simp

lemma on_grid_zero: "on_grid q 0"
  by (simp add: on_grid_def)

lemma on_grid_add: "on_grid q x \<Longrightarrow> on_grid q y \<Longrightarrow> on_grid q (x + y)"
  by (simp add: on_grid_def distrib_right)

lemma on_grid_diff: "on_grid q x \<Longrightarrow> on_grid q y \<Longrightarrow> on_grid q (x - y)"
  by (simp add: on_grid_def left_diff_distrib)

lemma on_grid_abs: "on_grid q x \<Longrightarrow> on_grid q \<bar>x\<bar>"
proof -
  assume "on_grid q x"
  then have "\<bar>x * 2 ^ q\<bar> \<in> \<int>" by (simp add: on_grid_def)
  then show ?thesis by (simp add: on_grid_def abs_mult)
qed

lemma grid_dict_get:
  "grid_dict q d \<Longrightarrow> on_grid q (dict_get d k 0) \<and> 0 \<le> dict_get d k 0
     \<and> dict_get d k 0 \<le> dict_values_sum d"
proof (induction d)
  case Nil
  then show ?case by (simp add: on_grid_zero dict_values_sum_sum_list)
next
  case (Cons a d)
  obtain k' v' where a: "a = (k', v')" by (cases a)
  from Cons.prems have v: "on_grid q v'" "0 \<le> v'" and d: "grid_dict q d"
    by (simp_all add: grid_dict_def a)
  from Cons.IH [OF d] have "0 \<le> dict_values_sum d" by simp
  with Cons.IH [OF d] v show ?case by (simp add: a dict_values_sum_sum_list)
qed

lemma grid_dict_set:
  "grid_dict q d \<Longrightarrow> on_grid q v \<Longrightarrow> 0 \<le> v \<Longrightarrow> grid_dict q (dict_set d k v)"
  by (induction d) (auto simp: grid_dict_def split: if_splits)

lemma abs_sum_Cons: "abs_sum (t # ts) = \<bar>amount t\<bar> + abs_sum ts"
  by (simp add: abs_sum_def)

lemma abs_sum_nonneg: "0 \<le> abs_sum txs"
  by (induction txs) (simp_all add: abs_sum_def)

lemma breakdown_loop_rounded_exact:
  assumes ex: "\<And>x. on_grid q x \<Longrightarrow> \<bar>x\<bar> \<le> bound \<Longrightarrow> fl x = x"
    and "\<forall>t \<in> set txs. on_grid q (amount t)"
    and "grid_dict q i" "grid_dict q e"
    and "dict_values_sum i + dict_values_sum e + abs_sum txs \<le> bound"
  shows "breakdown_loop_rounded fl txs (i, e) = breakdown_loop txs (i, e)
     \<and> grid_dict q (fst (breakdown_loop txs (i, e)))
     \<and> grid_dict q (snd (breakdown_loop txs (i, e)))
     \<and> dict_values_sum (fst (breakdown_loop txs (i, e)))
         + dict_values_sum (snd (breakdown_loop txs (i, e))) \<le> bound"
  using assms(2-)
proof (induction txs arbitrary: i e)
  case Nil
  then show ?case by (simp add: abs_sum_def)
next
  case (Cons t txs)
  from Cons.prems(1) have gt: "on_grid q (amount t)" and rest: "\<forall>t \<in> set txs. on_grid q (amount t)"
    by simp_all
  note gi = grid_dict_get [OF Cons.prems(2), of "category t"]
  note ge = grid_dict_get [OF Cons.prems(3), of "category t"]
  have si: "0 \<le> dict_values_sum i" using gi by linarith
  have se: "0 \<le> dict_values_sum e" using ge by linarith
  note tot = Cons.prems(4) [unfolded abs_sum_Cons]
  show ?case
  proof (cases "amount t > 0")
    case True
    define v where "v = dict_get i (category t) 0 + amount t"
    have g: "on_grid q v" using gi gt by (simp add: v_def on_grid_add)
    have p: "0 \<le> v" using gi True by (simp add: v_def)
    have "\<bar>v\<bar> \<le> bound" using gi True tot se abs_sum_nonneg [of txs] by (simp add: v_def)
    then have fl: "fl v = v" using g ex by simp
    have s: "dict_values_sum (dict_set i (category t) v) = dict_values_sum i + amount t"
      unfolding v_def by (rule dict_values_sum_set)
    have "dict_values_sum (dict_set i (category t) v) + dict_values_sum e + abs_sum txs \<le> bound"
      using tot True by (simp add: s)
    from Cons.IH [OF rest grid_dict_set [OF Cons.prems(2) g p] Cons.prems(3) this]
    show ?thesis using True fl by (simp add: v_def)
  next
    case False
    define v where "v = dict_get e (category t) 0 + \<bar>amount t\<bar>"
    have g: "on_grid q v" using ge gt by (simp add: v_def on_grid_add on_grid_abs)
    have p: "0 \<le> v" using ge by (simp add: v_def)
    have "\<bar>v\<bar> \<le> bound" using ge tot si abs_sum_nonneg [of txs] by (simp add: v_def)
    then have fl: "fl v = v" using g ex by simp
    have s: "dict_values_sum (dict_set e (category t) v) = dict_values_sum e + \<bar>amount t\<bar>"
      unfolding v_def by (rule dict_values_sum_set)
    have "dict_values_sum i + dict_values_sum (dict_set e (category t) v) + abs_sum txs \<le> bound"
      using tot by (simp add: s)
    from Cons.IH [OF rest Cons.prems(2) grid_dict_set [OF Cons.prems(3) g p] this]
    show ?thesis using False fl by (simp add: v_def)
  qed
qed

lemma foldl_rounded_exact:
  assumes ex: "\<And>x. on_grid q x \<Longrightarrow> \<bar>x\<bar> \<le> bound \<Longrightarrow> fl x = x"
    and "on_grid q a" "0 \<le> a" "\<forall>v \<in> set vs. on_grid q v \<and> 0 \<le> v" "a + sum_list vs \<le> bound"
  shows "foldl (\<lambda>a v. fl (a + v)) a vs = a + sum_list vs"
  using assms(2-)
proof (induction vs arbitrary: a)
  case Nil
  then show ?case by simp
next
  case (Cons v vs)
  from Cons.prems have g: "on_grid q (a + v)" and p: "0 \<le> a + v"
    by (simp_all add: on_grid_add)
  have "0 \<le> sum_list vs" using Cons.prems(3) by (intro sum_list_nonneg) auto
  then have "\<bar>a + v\<bar> \<le> bound" using Cons.prems p by simp
  then have "fl (a + v) = a + v" using g ex by simp
  moreover have "foldl (\<lambda>a v. fl (a + v)) (a + v) vs = (a + v) + sum_list vs"
    using Cons.prems by (intro Cons.IH g p) auto
  ultimately show ?case by simp
qed

lemma dict_values_sum_rounded_exact:
  assumes ex: "\<And>x. on_grid q x \<Longrightarrow> \<bar>x\<bar> \<le> bound \<Longrightarrow> fl x = x"
    and "grid_dict q d" "dict_values_sum d \<le> bound"
  shows "dict_values_sum_rounded fl d = dict_values_sum d"
proof -
  have "\<forall>v \<in> set (map snd d). on_grid q v \<and> 0 \<le> v"
    using assms(2) by (auto simp: grid_dict_def)
  from foldl_rounded_exact [of q bound fl 0 "map snd d", OF ex on_grid_zero _ this] assms(3)
  show ?thesis by (simp add: dict_values_sum_rounded_def dict_values_sum_sum_list)
qed

lemma sums_le_abs_sum: "income_sum txs + expense_sum txs \<le> abs_sum txs"
  by (induction txs) (auto simp: income_sum_def expense_sum_def abs_sum_def)

lemma sums_nonneg: "0 \<le> income_sum txs" "0 \<le> expense_sum txs"
  by (induction txs) (auto simp: income_sum_def expense_sum_def)

lemma on_grid_sums:
  "\<forall>t \<in> set txs. on_grid q (amount t) \<Longrightarrow> on_grid q (income_sum txs) \<and> on_grid q (expense_sum txs)"
  by (induction txs)
    (auto simp: income_sum_def expense_sum_def on_grid_zero on_grid_add on_grid_abs on_grid_diff)

lemma income_totals_rounded_exact:
  assumes ex: "\<And>x. on_grid q x \<Longrightarrow> \<bar>x\<bar> \<le> bound \<Longrightarrow> fl x = x"
    and g: "\<forall>t \<in> set txs. on_grid q (amount t)" and b: "abs_sum txs \<le> bound"
  shows "income_totals (generate_reports_rounded fl txs)
     = [income_sum txs, expense_sum txs, income_sum txs - expense_sum txs]"
proof -
  have gd: "grid_dict q []" by (simp add: grid_dict_def)
  have "dict_values_sum [] + dict_values_sum [] + abs_sum txs \<le> bound"
    using b by (simp add: dict_values_sum_def)
  note l = breakdown_loop_rounded_exact [of q bound fl txs "[]" "[]", OF ex g gd gd this]
  define i where "i = fst (breakdown_loop txs ([], []))"
  define e where "e = snd (breakdown_loop txs ([], []))"
  have loop: "breakdown_loop_rounded fl txs ([], []) = (i, e)" using l by (simp add: i_def e_def)
  have si: "dict_values_sum i = income_sum txs" and se: "dict_values_sum e = expense_sum txs"
    by (simp_all add: i_def e_def breakdown_loop_totals)
  have "dict_values_sum i \<le> bound" "dict_values_sum e \<le> bound"
    using l sums_nonneg [of txs] by (simp_all add: si se flip: i_def e_def)
  then have ri: "dict_values_sum_rounded fl i = income_sum txs"
    and re: "dict_values_sum_rounded fl e = expense_sum txs"
    using l dict_values_sum_rounded_exact [of q bound fl, OF ex]
    by (simp_all add: si se flip: i_def e_def)
  have "on_grid q (income_sum txs - expense_sum txs)"
    using on_grid_sums [OF g] by (simp add: on_grid_diff)
  moreover have "\<bar>income_sum txs - expense_sum txs\<bar> \<le> bound"
    using sums_nonneg [of txs] sums_le_abs_sum [of txs] b by linarith
  ultimately have "fl (income_sum txs - expense_sum txs) = income_sum txs - expense_sum txs"
    using ex by simp
  then show ?thesis
    by (simp add: income_totals_def generate_reports_rounded_def loop ri re Let_def
        del: breakdown_loop_rounded.simps)
qed

lemma abs_sum_append: "abs_sum (A @ B) = abs_sum A + abs_sum B"
  by (simp add: abs_sum_def)

lemma rounded_empty:
  "totals (generate_reports_rounded binary64 []) = replicate 10 0"
  "breakdown (income_statement (generate_reports_rounded binary64 [])) = []"
  by (simp_all add: totals_def generate_reports_rounded_def dict_values_sum_rounded_def
      binary64_zero merged_breakdown_def dict_update_def numeral_eq_Suc)

lemma totals_rounded:
  "totals (generate_reports_rounded fl txs) =
     derived_totals fl (total_income (income_statement (generate_reports_rounded fl txs)))
       (total_expenses (income_statement (generate_reports_rounded fl txs)))"
  by (simp add: totals_def derived_totals_def generate_reports_rounded_def Let_def split_beta)

text \<open>
  C9, amended. On the empty list all totals are 0 and the breakdown is empty. When the
  amounts of \<open>A\<close> and \<open>B\<close> are integer multiples of one \<open>2^-q\<close> and the sum of their absolute
  values is below \<open>2^(53-q)\<close>, no addition rounds, and total income, total expenses and net
  income of the concatenation are the sums (float sums and exact sums) of those of the
  parts; the ten totals of the concatenation are the rounded formulas applied to the sums
  of total income and of total expenses of the parts.
\<close>

theorem income_totals_additive_on_grid:
  assumes "\<forall>t \<in> set (A @ B). on_grid q (amount t)"
    and "abs_sum (A @ B) * 2 ^ q < 2 ^ 53" and "q \<le> 1074"
  shows "totals (generate_reports_rounded binary64 []) = replicate 10 0
     \<and> breakdown (income_statement (generate_reports_rounded binary64 [])) = []
     \<and> income_totals (generate_reports_rounded binary64 (A @ B))
         = map2 (\<lambda>x y. binary64 (x + y))
             (income_totals (generate_reports_rounded binary64 A))
             (income_totals (generate_reports_rounded binary64 B))
     \<and> income_totals (generate_reports_rounded binary64 (A @ B))
         = map2 (+) (income_totals (generate_reports_rounded binary64 A))
             (income_totals (generate_reports_rounded binary64 B))
     \<and> totals (generate_reports_rounded binary64 (A @ B))
         = derived_totals binary64
             (total_income (income_statement (generate_reports_rounded binary64 A))
              + total_income (income_statement (generate_reports_rounded binary64 B)))
             (total_expenses (income_statement (generate_reports_rounded binary64 A))
              + total_expenses (income_statement (generate_reports_rounded binary64 B)))"
proof -
  define bound where "bound = abs_sum (A @ B)"
  have ex: "binary64 x = x" if "on_grid q x" "\<bar>x\<bar> \<le> bound" for x
  proof -
    have "\<bar>x\<bar> * 2 ^ q \<le> bound * 2 ^ q" using that(2) by (intro mult_right_mono) auto
    also have "\<dots> < 2 ^ 53" using assms(2) by (simp only: bound_def)
    finally have "\<bar>x\<bar> * 2 ^ q < 2 ^ 53" .
    with that(1) show ?thesis using assms(3) by (rule binary64_grid)
  qed
  have gA: "\<forall>t \<in> set A. on_grid q (amount t)" and gB: "\<forall>t \<in> set B. on_grid q (amount t)"
    using assms(1) by auto
  have bA: "abs_sum A \<le> bound" and bB: "abs_sum B \<le> bound"
    using abs_sum_nonneg [of A] abs_sum_nonneg [of B] by (simp_all add: bound_def abs_sum_append)
  have tAB: "income_totals (generate_reports_rounded binary64 (A @ B))
      = [income_sum (A @ B), expense_sum (A @ B), income_sum (A @ B) - expense_sum (A @ B)]"
    using ex assms(1) by (intro income_totals_rounded_exact [of q bound]) (simp_all add: bound_def)
  have tA: "income_totals (generate_reports_rounded binary64 A)
      = [income_sum A, expense_sum A, income_sum A - expense_sum A]"
    using ex gA bA by (intro income_totals_rounded_exact [of q bound]) simp_all
  have tB: "income_totals (generate_reports_rounded binary64 B)
      = [income_sum B, expense_sum B, income_sum B - expense_sum B]"
    using ex gB bB by (intro income_totals_rounded_exact [of q bound]) simp_all
  note g = on_grid_sums [OF assms(1)]
  note le = sums_le_abs_sum [of "A @ B"] sums_nonneg [of "A @ B"]
  have i: "binary64 (income_sum A + income_sum B) = income_sum A + income_sum B"
    using g le by (intro ex) (simp_all add: income_sum_append bound_def)
  have e: "binary64 (expense_sum A + expense_sum B) = expense_sum A + expense_sum B"
    using g le by (intro ex) (simp_all add: expense_sum_append bound_def)
  have "on_grid q (income_sum (A @ B) - expense_sum (A @ B))" using g by (simp add: on_grid_diff)
  moreover have "\<bar>income_sum (A @ B) - expense_sum (A @ B)\<bar> \<le> bound"
    using le unfolding bound_def by linarith
  ultimately have "binary64 (income_sum (A @ B) - expense_sum (A @ B))
      = income_sum (A @ B) - expense_sum (A @ B)" by (rule ex)
  moreover have "income_sum A - expense_sum A + (income_sum B - expense_sum B)
      = income_sum (A @ B) - expense_sum (A @ B)"
    by (simp add: income_sum_append expense_sum_append)
  ultimately have n: "binary64 (income_sum A - expense_sum A + (income_sum B - expense_sum B))
      = income_sum A - expense_sum A + (income_sum B - expense_sum B)" by simp
  have sel: "total_income (income_statement r) = a \<and> total_expenses (income_statement r) = b"
    if "income_totals r = [a, b, c]" for r a b c
    using that by (simp add: income_totals_def)
  have d: "totals (generate_reports_rounded binary64 (A @ B))
         = derived_totals binary64
             (total_income (income_statement (generate_reports_rounded binary64 A))
              + total_income (income_statement (generate_reports_rounded binary64 B)))
             (total_expenses (income_statement (generate_reports_rounded binary64 A))
              + total_expenses (income_statement (generate_reports_rounded binary64 B)))"
    unfolding totals_rounded [of binary64 "A @ B"]
    by (simp only: sel [OF tAB] sel [OF tA] sel [OF tB] income_sum_append expense_sum_append)
  have m1: "income_totals (generate_reports_rounded binary64 (A @ B))
         = map2 (\<lambda>x y. binary64 (x + y))
             (income_totals (generate_reports_rounded binary64 A))
             (income_totals (generate_reports_rounded binary64 B))"
    unfolding tAB tA tB
    by (simp add: i e n income_sum_append expense_sum_append)
  have m2: "income_totals (generate_reports_rounded binary64 (A @ B))
         = map2 (+) (income_totals (generate_reports_rounded binary64 A))
             (income_totals (generate_reports_rounded binary64 B))"
    unfolding tAB tA tB
    by (simp add: income_sum_append expense_sum_append)
  show ?thesis by (intro conjI rounded_empty m1 m2 d)
qed

theorem income_totals_additive_on_grid_witness:
  "on_grid 1 (amount half_tx) \<and> on_grid 1 (amount rent_tx)
   \<and> abs_sum ([half_tx] @ [rent_tx]) * 2 ^ 1 < 2 ^ 53
   \<and> income_totals (generate_reports_rounded binary64 [half_tx]) = [1234.5, 0, 1234.5]
   \<and> income_totals (generate_reports_rounded binary64 [rent_tx]) = [0, 15000, - 15000]
   \<and> income_totals (generate_reports_rounded binary64 ([half_tx] @ [rent_tx])) = [1234.5, 15000, - 13765.5]"
proof -
  have g: "\<forall>t \<in> set ([half_tx] @ [rent_tx]). on_grid 1 (amount t)"
    by (simp add: on_grid_def half_tx_def rent_tx_def)
  have b: "abs_sum ([half_tx] @ [rent_tx]) * 2 ^ 1 < 2 ^ 53"
    by (simp add: abs_sum_def half_tx_def rent_tx_def)
  have q: "(1::nat) \<le> 1074" by simp
  have ex: "binary64 x = x" if "on_grid 1 x" "\<bar>x\<bar> \<le> 16234.5" for x
    using that by (intro binary64_grid [of 1]) simp_all
  have a1: "abs_sum [half_tx] \<le> 16234.5" "abs_sum [rent_tx] \<le> 16234.5"
    by (simp_all add: abs_sum_def half_tx_def rent_tx_def)
  have t1: "income_totals (generate_reports_rounded binary64 [half_tx]) = [1234.5, 0, 1234.5]"
    using income_totals_rounded_exact [of 1 "16234.5" binary64 "[half_tx]"] ex g a1
    by (simp add: income_sum_def expense_sum_def half_tx_def)
  have t2: "income_totals (generate_reports_rounded binary64 [rent_tx]) = [0, 15000, - 15000]"
    using income_totals_rounded_exact [of 1 "16234.5" binary64 "[rent_tx]"] ex g a1
    by (simp add: income_sum_def expense_sum_def rent_tx_def)
  from income_totals_additive_on_grid [OF g b q] have "income_totals (generate_reports_rounded binary64 ([half_tx] @ [rent_tx]))
         = map2 (+) (income_totals (generate_reports_rounded binary64 [half_tx]))
             (income_totals (generate_reports_rounded binary64 [rent_tx]))" by blast
  then have "income_totals (generate_reports_rounded binary64 ([half_tx] @ [rent_tx]))
      = [1234.5, 15000, - 13765.5]" unfolding t1 t2 by simp
  with g b t1 t2 show ?thesis by simp
qed

end
